theory Spec2Isabelle
  imports Main "HOL-Library.Char_ord" "HOL-Library.List_Lexorder" "HOL-Library.Sublist"
begin

section \<open>Exceptions and messages\<close>

text \<open>
  The exceptions that \<^verbatim>\<open>charm_refresh/_main.py\<close> raises (or lets Python raise) in the code
  modelled below. A function that can raise returns \<open>error + 'a\<close>, with \<open>Inl\<close> for the raise.
\<close>

datatype error =
    ValueError
  | IndexError
  | UnboundLocalError
  | AssertionError
  | Exception'
  | KubernetesJujuAppNotTrusted
  | UnitTearingDown
  | PeerRelationMissing
  | StopIteration

text \<open>
  Messages given to \<^verbatim>\<open>event.fail\<close>, \<^verbatim>\<open>event.log\<close>, \<^verbatim>\<open>event.result\<close> and to the statuses.
  The source builds them with f-strings; the model keeps one constructor per message and the
  values that are formatted into it.
\<close>

datatype message =
    Must_run_action_on_unit int
  | No_refresh_in_progress
  | Must_run_with_at_least_one_parameter_false
  | Unit_tearing_down
  | Unit_has_not_yet_refreshed int
  | Refresh_already_started
  | Skipping_workload_container_check
  | Checked_workload_container
  | Workload_container_not_validated
  | Skipping_compatibility_check
  | Checked_compatibility
  | Refresh_incompatible
  | Refresh_incompatible_rollback_with_instructions
  | Skipping_pre_refresh_checks
  | Running_pre_refresh_checks
  | Pre_refresh_check_failed string
  | Rollback_pre_refresh_check_failed string
  | Pre_refresh_checks_successful
  | Workload_refreshed_on_unit int
  | Missing_or_incorrect_OCI_resource
  | Must_run_action_on_leader
  | Pause_after_config_invalid
  | Pause_after_is_none_action_not_applicable
  | Ignoring_health_of_refreshed_units
  | Attempting_to_refresh_unit int
  | Unit_is_unhealthy int
  | Refresh_resumed_unit_is_refreshing_next int
  | Unit_is_refreshing_next int
  | Refreshing_to_rollback_see_docs
  | Refreshing_check_units_healthy_and_resume int
  | Refreshing_to_pause_set_config
  | Run_juju_trust
  | Refresh_already_in_progress
  | Charm_not_ready_for_refresh string
  | Charm_ready_for_refresh
  | Workload_container_not_running

datatype status =
    BlockedStatus message
  | MaintenanceStatus message

section \<open>Events\<close>

text \<open>
  \<^verbatim>\<open>charm.event\<close>. An action event carries the action's name and parameters; the three
  actions of the library have their parameters typed by the action schema.
\<close>

datatype action =
    ForceRefreshStart bool bool bool
      \<comment> \<open>check-workload-container, check-compatibility, run-pre-refresh-checks\<close>
  | ResumeRefresh bool
      \<comment> \<open>check-health-of-refreshed-units\<close>
  | PreRefreshCheck
  | OtherAction

datatype event =
    ActionEvent action
  | RelationDepartedEvent string int
      \<comment> \<open>the departing unit: its app and its number\<close>
  | StopEvent
  | OtherEvent

section \<open>The pause\_after\_unit\_refresh config option: class \_PauseAfter\<close>

text \<open>
  \<^verbatim>\<open>class _PauseAfter(str, enum.Enum)\<close> with members NONE, FIRST, ALL, UNKNOWN
  (\<open>ALL\<close> is written \<open>ALL'\<close>: the plain name is HOL's quantifier).
\<close>

datatype PauseAfter = NONE | FIRST | ALL' | UNKNOWN

text \<open>The member's value: the string it was declared with.\<close>

fun PauseAfter_value :: "PauseAfter \<Rightarrow> string" where
  "PauseAfter_value NONE = ''none''"
| "PauseAfter_value FIRST = ''first''"
| "PauseAfter_value ALL' = ''all''"
| "PauseAfter_value UNKNOWN = ''unknown''"

text \<open>\<^verbatim>\<open>_missing_\<close>: what the enum lookup returns for a value that no member has.\<close>

definition missing :: "string \<Rightarrow> PauseAfter" where
  "missing v = UNKNOWN"

text \<open>\<^verbatim>\<open>_PauseAfter(value)\<close>: the enum's lookup by value, falling back to \<^verbatim>\<open>_missing_\<close>.\<close>

definition PauseAfter_of :: "string \<Rightarrow> PauseAfter" where
  "PauseAfter_of v =
     (if v = ''none'' then NONE
      else if v = ''first'' then FIRST
      else if v = ''all'' then ALL'
      else if v = ''unknown'' then UNKNOWN
      else missing v)"

text \<open>The dictionary \<^verbatim>\<open>priorities\<close> of \<^verbatim>\<open>__gt__\<close>.\<close>

fun priorities :: "PauseAfter \<Rightarrow> nat" where
  "priorities NONE = 0"
| "priorities FIRST = 1"
| "priorities ALL' = 2"
| "priorities UNKNOWN = 3"

text \<open>
  \<^verbatim>\<open>__gt__\<close>, the one comparison the class defines. (Its \<^verbatim>\<open>TypeError\<close> branch needs an
  operand that is not a \<^verbatim>\<open>_PauseAfter\<close>; the type of \<open>other\<close> excludes it.)
\<close>

definition PauseAfter_gt :: "PauseAfter \<Rightarrow> PauseAfter \<Rightarrow> bool" where
  "PauseAfter_gt self other = (priorities self > priorities other)"

text \<open>
  \<^verbatim>\<open>__lt__\<close>, \<^verbatim>\<open>__le__\<close> and \<^verbatim>\<open>__ge__\<close>. The class is decorated with
  \<^verbatim>\<open>functools.total_ordering\<close>, which adds a comparison method only where the class does not
  already have one that differs from \<^verbatim>\<open>object\<close>'s. \<^verbatim>\<open>_PauseAfter\<close> inherits from
  \<^verbatim>\<open>str\<close>, which defines all of them, so the decorator adds nothing and the three
  methods are \<^verbatim>\<open>str\<close>'s: they compare the members' values as strings, lexicographically
  by code point.
\<close>

definition PauseAfter_lt :: "PauseAfter \<Rightarrow> PauseAfter \<Rightarrow> bool" where
  "PauseAfter_lt self other = (PauseAfter_value self < PauseAfter_value other)"

definition PauseAfter_le :: "PauseAfter \<Rightarrow> PauseAfter \<Rightarrow> bool" where
  "PauseAfter_le self other = (PauseAfter_value self \<le> PauseAfter_value other)"

definition PauseAfter_ge :: "PauseAfter \<Rightarrow> PauseAfter \<Rightarrow> bool" where
  "PauseAfter_ge self other = (PauseAfter_value self \<ge> PauseAfter_value other)"

text \<open>
  Python's \<^verbatim>\<open>max\<close> over an iterable of \<^verbatim>\<open>_PauseAfter\<close>: it keeps the first item and
  replaces it by each later item that is \<^verbatim>\<open>>\<close> the one kept; an empty iterable raises
  \<^verbatim>\<open>ValueError\<close> (the call gives no \<^verbatim>\<open>default\<close>).
\<close>

definition max_PauseAfter :: "PauseAfter list \<Rightarrow> error + PauseAfter" where
  "max_PauseAfter items =
     (case items of
        [] \<Rightarrow> Inl ValueError
      | item # rest \<Rightarrow>
          Inr (foldl (\<lambda>maxitem item. if PauseAfter_gt item maxitem then item else maxitem)
                 item rest))"

section \<open>Units and databags\<close>

text \<open>
  \<^verbatim>\<open>_KubernetesUnit\<close>: a unit of this app, as read from its pod. \<^verbatim>\<open>charm.Unit\<close> is a
  string (the unit's name) that compares and sorts by the unit; all units listed are pods of
  this app, so a unit is identified by its number.
\<close>

record KubernetesUnit =
  number :: int
  controller_revision :: string
  pod_uid :: string

text \<open>
  A unit's databag in the peer relation, with the keys the library uses. A key that is
  absent (or holds \<^verbatim>\<open>None\<close>, which \<^verbatim>\<open>get\<close> does not tell apart) is \<open>None\<close>.
\<close>

record unit_databag =
  next_unit_allowed_to_refresh_if_app_controller_revision_hash_equals :: "string option"
  refresh_started_if_app_controller_revision_hash_in :: "string list option"
  pause_after_unit_refresh_config :: "string option"
  pod_uids_of_units_that_are_tearing_down :: "string list option"
  unused_pod_uid_after_pod_restart_and_partition_raised :: "string option"
  unused_controller_revision_during_last_stop_event :: "string option"

text \<open>
  The app databag (\<^verbatim>\<open>my_app_ro\<close>; \<^verbatim>\<open>my_app_rw\<close> is the same databag, available on the
  leader only). \<open>original_workload_version\<close> is \<open>None\<close> when the key is absent and
  \<open>Some None\<close> when it holds \<^verbatim>\<open>None\<close>.
\<close>

record app_databag =
  original_workload_version :: "string option option"
  original_workload_container_version :: "string option"
  original_installed_workload_container_matched_pinned_container :: "bool option"
  original_charm_version :: "string option"
  original_charm_revision :: "string option"
  app_refresh_started_if_app_controller_revision_hash_in :: "string list option"

section \<open>The version snapshot: class \_OriginalVersions\<close>

text \<open>
  \<^verbatim>\<open>CharmVersion\<close> compares equal by its version string, so a charm version is kept as
  that string.
\<close>

record OriginalVersions =
  workload :: "string option"
  workload_container :: string
  installed_workload_container_matched_pinned_container :: bool
  charm :: string
  charm_revision_raw :: string

text \<open>\<^verbatim>\<open>__post_init__\<close>, run by every construction of the dataclass.\<close>

definition post_init :: "OriginalVersions \<Rightarrow> error + OriginalVersions" where
  "post_init self =
     (if installed_workload_container_matched_pinned_container self \<and> workload self = None
      then Inl ValueError
      else if \<not> installed_workload_container_matched_pinned_container self
              \<and> workload self \<noteq> None
      then Inl ValueError
      else Inr self)"

text \<open>The dataclass constructor: the fields, then \<^verbatim>\<open>__post_init__\<close>.\<close>

definition OriginalVersions_new ::
  "string option \<Rightarrow> string \<Rightarrow> bool \<Rightarrow> string \<Rightarrow> string \<Rightarrow> error + OriginalVersions" where
  "OriginalVersions_new w c m ch r =
     post_init \<lparr>workload = w, workload_container = c,
       installed_workload_container_matched_pinned_container = m,
       charm = ch, charm_revision_raw = r\<rparr>"

text \<open>
  \<^verbatim>\<open>CharmVersion(version)\<close> on a string: it returns the version or raises
  \<^verbatim>\<open>ValueError\<close>. Which strings it accepts is decided by \<^verbatim>\<open>packaging.version\<close>; the
  predicate \<open>valid\<close> stands for that.
\<close>

definition CharmVersion :: "(string \<Rightarrow> bool) \<Rightarrow> string \<Rightarrow> error + string" where
  "CharmVersion valid version = (if valid version then Inr version else Inl ValueError)"

text \<open>
  \<^verbatim>\<open>from_app_databag\<close>: a missing key (\<^verbatim>\<open>KeyError\<close>) and a \<^verbatim>\<open>ValueError\<close> of
  \<^verbatim>\<open>CharmVersion\<close> or of \<^verbatim>\<open>__post_init__\<close> are all raised again as \<^verbatim>\<open>ValueError\<close>.
\<close>

definition from_app_databag :: "(string \<Rightarrow> bool) \<Rightarrow> app_databag \<Rightarrow> error + OriginalVersions" where
  "from_app_databag valid databag =
     (case original_workload_version databag of
        None \<Rightarrow> Inl ValueError
      | Some w \<Rightarrow>
     (case original_workload_container_version databag of
        None \<Rightarrow> Inl ValueError
      | Some c \<Rightarrow>
     (case original_installed_workload_container_matched_pinned_container databag of
        None \<Rightarrow> Inl ValueError
      | Some m \<Rightarrow>
     (case original_charm_version databag of
        None \<Rightarrow> Inl ValueError
      | Some v \<Rightarrow>
     (case CharmVersion valid v of
        Inl _ \<Rightarrow> Inl ValueError
      | Inr ch \<Rightarrow>
     (case original_charm_revision databag of
        None \<Rightarrow> Inl ValueError
      | Some r \<Rightarrow>
     (case OriginalVersions_new w c m ch r of
        Inl _ \<Rightarrow> Inl ValueError
      | Inr original_versions \<Rightarrow> Inr original_versions)))))))"

text \<open>\<^verbatim>\<open>write_to_app_databag\<close>: \<^verbatim>\<open>databag.update(new_values)\<close>.\<close>

definition write_to_app_databag :: "OriginalVersions \<Rightarrow> app_databag \<Rightarrow> app_databag" where
  "write_to_app_databag self databag =
     databag\<lparr>original_workload_version := Some (workload self),
       original_workload_container_version := Some (workload_container self),
       original_installed_workload_container_matched_pinned_container :=
         Some (installed_workload_container_matched_pinned_container self),
       original_charm_version := Some (charm self),
       original_charm_revision := Some (charm_revision_raw self)\<rparr>"

section \<open>The force-refresh-start action\<close>

record ForceRefreshStartAction =
  check_workload_container :: bool
  check_compatibility :: bool
  run_pre_refresh_checks :: bool

text \<open>
  \<^verbatim>\<open>_ForceRefreshStartAction.__init__\<close>. The result is the messages given to
  \<^verbatim>\<open>event.fail\<close> and the action, or \<open>None\<close> where the source raises
  \<^verbatim>\<open>_InvalidForceEvent\<close> (which the caller turns into \<^verbatim>\<open>force_start = None\<close>).
  The \<^verbatim>\<open>for\<close> loop breaks at the first parameter that is \<^verbatim>\<open>False\<close>; its
  \<^verbatim>\<open>else\<close> branch runs when no parameter is.
\<close>

definition ForceRefreshStartAction_init ::
  "event \<Rightarrow> int \<Rightarrow> int \<Rightarrow> bool \<Rightarrow> message list \<times> ForceRefreshStartAction option" where
  "ForceRefreshStartAction_init ev unit first_unit_to_refresh in_progress =
     (case ev of
        ActionEvent (ForceRefreshStart cwc cc rprc) \<Rightarrow>
          if unit \<noteq> first_unit_to_refresh
          then ([Must_run_action_on_unit first_unit_to_refresh], None)
          else if \<not> in_progress
          then ([No_refresh_in_progress], None)
          else if find (\<lambda>parameter. parameter = False) [cwc, cc, rprc] = None
          then ([Must_run_with_at_least_one_parameter_false], None)
          else ([], Some \<lparr>check_workload_container = cwc, check_compatibility = cc,
                          run_pre_refresh_checks = rprc\<rparr>)
      | _ \<Rightarrow> ([], None))"

text \<open>Databags with no key.\<close>

definition empty_unit_databag :: unit_databag where
  "empty_unit_databag =
     \<lparr>next_unit_allowed_to_refresh_if_app_controller_revision_hash_equals = None,
      refresh_started_if_app_controller_revision_hash_in = None,
      pause_after_unit_refresh_config = None,
      pod_uids_of_units_that_are_tearing_down = None,
      unused_pod_uid_after_pod_restart_and_partition_raised = None,
      unused_controller_revision_during_last_stop_event = None\<rparr>"

definition empty_app_databag :: app_databag where
  "empty_app_databag =
     \<lparr>original_workload_version = None,
      original_workload_container_version = None,
      original_installed_workload_container_matched_pinned_container = None,
      original_charm_version = None,
      original_charm_revision = None,
      app_refresh_started_if_app_controller_revision_hash_in = None\<rparr>"

section \<open>The peer relation\<close>

text \<open>
  \<^verbatim>\<open>charm_json.PeerRelation\<close>: this unit's own databag (\<^verbatim>\<open>my_unit\<close>, which always
  exists), the databags of the other units (a unit can be missing from the relation during
  scale up or scale down) and the app databag.
\<close>

record PeerRelation =
  my_unit :: unit_databag
  peers :: "int \<Rightarrow> unit_databag option"
  my_app :: app_databag

text \<open>
  \<^verbatim>\<open>self._relation.get(unit, {}).get(key)\<close> for the unit numbered \<open>this_unit\<close> running
  the code: a missing unit and a missing key both give \<^verbatim>\<open>None\<close>.
\<close>

definition relation_get :: "PeerRelation \<Rightarrow> int \<Rightarrow> KubernetesUnit \<Rightarrow> unit_databag option" where
  "relation_get rel this_unit unit =
     (if number unit = this_unit then Some (my_unit rel) else peers rel (number unit))"

definition relation_get_key ::
  "PeerRelation \<Rightarrow> int \<Rightarrow> KubernetesUnit \<Rightarrow> (unit_databag \<Rightarrow> 'a option) \<Rightarrow> 'a option" where
  "relation_get_key rel this_unit unit key =
     (case relation_get rel this_unit unit of None \<Rightarrow> None | Some databag \<Rightarrow> key databag)"

section \<open>Determining the pause policy\<close>

text \<open>A filter whose condition can raise: the first raise ends the iteration.\<close>

fun filter_raising :: "('a \<Rightarrow> error + bool) \<Rightarrow> 'a list \<Rightarrow> error + 'a list" where
  "filter_raising p [] = Inr []"
| "filter_raising p (x # xs) =
     (case p x of
        Inl e \<Rightarrow> Inl e
      | Inr b \<Rightarrow>
          (case filter_raising p xs of
             Inl e \<Rightarrow> Inl e
           | Inr ys \<Rightarrow> Inr (if b then x # ys else ys)))"

text \<open>
  The condition of the generator \<^verbatim>\<open>most_up_to_date_units\<close>. \<^verbatim>\<open>or\<close> evaluates
  \<^verbatim>\<open>self._units_not_tearing_down[0]\<close> only when the first comparison is false.
\<close>

definition is_most_up_to_date ::
  "KubernetesUnit list \<Rightarrow> KubernetesUnit list \<Rightarrow> KubernetesUnit \<Rightarrow> error + bool" where
  "is_most_up_to_date units units_not_tearing_down unit =
     (case units of
        [] \<Rightarrow> Inl IndexError
      | unit0 # _ \<Rightarrow>
          if controller_revision unit = controller_revision unit0 then Inr True
          else (case units_not_tearing_down of
                  [] \<Rightarrow> Inl IndexError
                | unit0' # _ \<Rightarrow>
                    Inr (controller_revision unit = controller_revision unit0')))"

text \<open>
  The values \<^verbatim>\<open>pause_after_values\<close> that reach \<^verbatim>\<open>max\<close>: the config value in the
  databag of each most-up-to-date unit, the \<^verbatim>\<open>None\<close> values dropped.
\<close>

definition pause_after_values ::
  "PeerRelation \<Rightarrow> int \<Rightarrow> KubernetesUnit list \<Rightarrow> string list" where
  "pause_after_values rel this_unit most_up_to_date_units =
     map the (filter (\<lambda>v. v \<noteq> None)
       (map (\<lambda>unit. relation_get_key rel this_unit unit pause_after_unit_refresh_config)
          most_up_to_date_units))"

text \<open>\<^verbatim>\<open>self._pause_after\<close> as \<^verbatim>\<open>__init__\<close> determines it.\<close>

definition determine_pause_after ::
  "PeerRelation \<Rightarrow> int \<Rightarrow> KubernetesUnit list \<Rightarrow> KubernetesUnit list \<Rightarrow> error + PauseAfter" where
  "determine_pause_after rel this_unit units units_not_tearing_down =
     (case filter_raising (is_most_up_to_date units units_not_tearing_down) units of
        Inl e \<Rightarrow> Inl e
      | Inr most_up_to_date_units \<Rightarrow>
          max_PauseAfter
            (map PauseAfter_of (pause_after_values rel this_unit most_up_to_date_units)))"

section \<open>The inputs of an event\<close>

text \<open>
  What one Juju event reads and does not change: the \<^verbatim>\<open>charm\<close> module's view of the
  unit (\<^verbatim>\<open>charm.app\<close>, \<^verbatim>\<open>charm.unit\<close>, \<^verbatim>\<open>charm.is_leader\<close>,
  \<^verbatim>\<open>charm.event\<close>, \<^verbatim>\<open>charm.config\<close>), what the Kubernetes API answers (whether the
  app may patch its StatefulSet, the StatefulSet's update revision, the app's pods), whether
  the peer relation exists, the versions read from the charm's files
  (\<^verbatim>\<open>.juju-charm\<close>, \<^verbatim>\<open>refresh_versions.toml\<close>, \<^verbatim>\<open>metadata.yaml\<close>) and from this unit's
  pod, and the charm-specific callbacks. \<open>is_compatible\<close> takes the old and new charm
  versions and the old and new workload versions. A pre-refresh check callback is \<open>None\<close>
  when it returns and \<open>Some message\<close> when it raises \<^verbatim>\<open>PrecheckFailed(message)\<close>.
\<close>

record env =
  app :: string
  this_unit :: int
  is_leader :: bool
  event :: event
  config_pause_after_unit_refresh :: string
  trusted :: bool
  app_controller_revision :: string
  pods :: "KubernetesUnit list"
  relation_exists :: bool
  installed_charm_revision_raw :: string
  installed_charm_version :: string
  pinned_workload_version :: string
  pinned_workload_container_version :: string
  installed_workload_container_version :: "string option"
  valid_charm_version :: "string \<Rightarrow> bool"
  is_compatible :: "string \<Rightarrow> string \<Rightarrow> string option \<Rightarrow> string \<Rightarrow> bool"
  run_pre_refresh_checks_after_1_unit_refreshed :: "string option"
  run_pre_refresh_checks_before_any_units_refreshed :: "string option"

section \<open>The state that outlives an event\<close>

text \<open>
  The StatefulSet's partition, the peer relation's databags and the files of this unit's
  local state directory \<^verbatim>\<open>.charm_refresh_v3\<close> (a flag file is \<open>True\<close> when it exists;
  the JSON file of pod uids is \<open>None\<close> when it does not exist).
\<close>

record world =
  statefulset_partition :: int
  relation :: PeerRelation
  tearing_down :: bool
  tearing_down_logged :: bool
  had_opportunity_to_raise_partition_after_pod_restart :: bool
  refresh_started_local_state :: bool
  pod_uids_of_units_that_are_tearing_down_local_state :: "string list option"

section \<open>The \_Kubernetes object\<close>

text \<open>The automatic checks, and the call of the charm's \<^verbatim>\<open>is_compatible\<close>.\<close>

datatype check =
    Workload_container_check
  | Compatibility_check
  | Is_compatible_call
  | Pre_refresh_checks

text \<open>
  The object during one event: the world it acts on, its attributes, and what it does
  that the event's caller or the user sees: the calls of \<^verbatim>\<open>_set_partition\<close> in order,
  \<^verbatim>\<open>charm.app_status\<close> when it is set, the messages given to the action's
  \<^verbatim>\<open>fail\<close> and \<^verbatim>\<open>log\<close>, the action's \<^verbatim>\<open>result\<close>, and the checks that ran.
  An attribute holds an arbitrary value until \<^verbatim>\<open>__init__\<close> assigns it; no code
  below reads it before.
\<close>

record Kubernetes = world +
  units :: "KubernetesUnit list"
  units_not_tearing_down :: "KubernetesUnit list"
  in_progress :: bool
  unit_controller_revision :: string
  pause_after :: PauseAfter
  refresh_started :: bool
  unit_status_higher_priority :: "status option"
  app_status_higher_priority :: "status option"
  partition_patches :: "int list"
  app_status :: "status option"
  action_failures :: "message list"
  action_logs :: "message list"
  action_result :: "message option"
  checks_run :: "check list"

text \<open>\<^verbatim>\<open>_set_partition\<close>: a patch of the StatefulSet.\<close>

definition set_partition :: "int \<Rightarrow> Kubernetes \<Rightarrow> Kubernetes" where
  "set_partition v self =
     self\<lparr>statefulset_partition := v, partition_patches := partition_patches self @ [v]\<rparr>"

definition action_fail :: "message \<Rightarrow> Kubernetes \<Rightarrow> Kubernetes" where
  "action_fail m self = self\<lparr>action_failures := action_failures self @ [m]\<rparr>"

definition action_log :: "message \<Rightarrow> Kubernetes \<Rightarrow> Kubernetes" where
  "action_log m self = self\<lparr>action_logs := action_logs self @ [m]\<rparr>"

definition action_set_result :: "message \<Rightarrow> Kubernetes \<Rightarrow> Kubernetes" where
  "action_set_result m self = self\<lparr>action_result := Some m\<rparr>"

text \<open>A change of this unit's databag.\<close>

definition update_my_unit :: "(unit_databag \<Rightarrow> unit_databag) \<Rightarrow> Kubernetes \<Rightarrow> Kubernetes" where
  "update_my_unit f self =
     self\<lparr>relation := (relation self)\<lparr>my_unit := f (my_unit (relation self))\<rparr>\<rparr>"

text \<open>Python's \<^verbatim>\<open>xs[i]\<close> for \<open>i \<ge> 0\<close> and \<^verbatim>\<open>xs[-1]\<close>.\<close>

definition list_get :: "'a list \<Rightarrow> nat \<Rightarrow> error + 'a" where
  "list_get xs i = (if i < length xs then Inr (xs ! i) else Inl IndexError)"

definition list_get_last :: "'a list \<Rightarrow> error + 'a" where
  "list_get_last xs = (if xs = [] then Inl IndexError else Inr (last xs))"

section \<open>\_set\_partition\_and\_app\_status\<close>

text \<open>The resume-refresh action of the event, if it is one: its parameter.\<close>

definition resume_refresh_action :: "event \<Rightarrow> bool option" where
  "resume_refresh_action ev =
     (case ev of ActionEvent (ResumeRefresh check_health_of_refreshed_units) \<Rightarrow>
        Some check_health_of_refreshed_units | _ \<Rightarrow> None)"

text \<open>
  The loop \<^verbatim>\<open>for index, unit in enumerate(self._units_not_tearing_down)\<close> that breaks at
  the first unit whose controller revision is not the app's, and the
  \<^verbatim>\<open>next_unit_to_refresh\<close> and \<^verbatim>\<open>next_unit_to_refresh_index\<close> read from its variables
  afterwards: the unit it broke at, or the last unit when it did not break. Over no units
  the variables are unbound (\<open>None\<close>).
\<close>

fun next_unit_to_refresh_loop ::
  "string \<Rightarrow> KubernetesUnit list \<Rightarrow> nat \<Rightarrow> (nat \<times> KubernetesUnit) option" where
  "next_unit_to_refresh_loop app_revision [] index = None"
| "next_unit_to_refresh_loop app_revision [unit] index = Some (index, unit)"
| "next_unit_to_refresh_loop app_revision (unit # unit' # rest) index =
     (if controller_revision unit \<noteq> app_revision then Some (index, unit)
      else next_unit_to_refresh_loop app_revision (unit' # rest) (Suc index))"

text \<open>
  The decision \<^verbatim>\<open>allow_next_unit_to_refresh\<close>, with what it tells the action.
  \<open>action\<close> is the resume-refresh action's parameter (\<open>None\<close>: no such action).
\<close>

definition allow_next_unit_to_refresh ::
  "env \<Rightarrow> bool \<Rightarrow> bool option \<Rightarrow> nat \<Rightarrow> KubernetesUnit \<Rightarrow> Kubernetes
     \<Rightarrow> error option \<times> bool \<times> Kubernetes" where
  "allow_next_unit_to_refresh e handle_action action next_unit_to_refresh_index
       next_unit_to_refresh self =
     (if action = Some False then
        (None, True,
         if handle_action
         then action_set_result (Attempting_to_refresh_unit (number next_unit_to_refresh))
                (action_log Ignoring_health_of_refreshed_units self)
         else self)
      else if \<not> refresh_started self then
        (if handle_action \<and> action \<noteq> None then
           (if action \<noteq> Some True then (Some AssertionError, False, self)
            else (case units self of
                    [] \<Rightarrow> (Some IndexError, False, self)
                  | unit0 # _ \<Rightarrow>
                      (None, False, action_fail (Unit_is_unhealthy (number unit0)) self)))
         else (None, False, self))
      else
        (case find (\<lambda>unit. relation_get_key (relation self) (this_unit e) unit
                             next_unit_allowed_to_refresh_if_app_controller_revision_hash_equals
                           \<noteq> Some (app_controller_revision e))
                (take next_unit_to_refresh_index (units_not_tearing_down self)) of
           Some unit \<Rightarrow>
             (None, False,
              if handle_action \<and> action \<noteq> None
              then action_fail (Unit_is_unhealthy (number unit)) self else self)
         | None \<Rightarrow>
             if action \<noteq> None \<or> pause_after self = NONE
                \<or> (pause_after self = FIRST \<and> next_unit_to_refresh_index \<ge> 2)
             then
               (if action \<noteq> None \<and> action \<noteq> Some True then (Some AssertionError, True, self)
                else if handle_action \<and> action \<noteq> None then
                  (if pause_after self = NONE then (Some AssertionError, True, self)
                   else if pause_after self = FIRST then
                     (None, True,
                      action_set_result
                        (Refresh_resumed_unit_is_refreshing_next (number next_unit_to_refresh))
                        self)
                   else if pause_after self = ALL' \<or> pause_after self = UNKNOWN then
                     (None, True,
                      action_set_result (Unit_is_refreshing_next (number next_unit_to_refresh))
                        self)
                   else (Some AssertionError, True, self))
                else (None, True, self))
             else (None, False, self)))"

text \<open>\<^verbatim>\<open>target_partition\<close>.\<close>

definition target_partition ::
  "bool \<Rightarrow> nat \<Rightarrow> KubernetesUnit \<Rightarrow> Kubernetes \<Rightarrow> error + int" where
  "target_partition allow next_unit_to_refresh_index next_unit_to_refresh self =
     (if allow then Inr (number next_unit_to_refresh)
      else (case list_get (units_not_tearing_down self)
                   (nat (max (int next_unit_to_refresh_index - 1) 0)) of
              Inl err \<Rightarrow> Inl err
            | Inr unit \<Rightarrow> Inr (number unit)))"

text \<open>
  ``Only lower the partition---do not raise it'': the partition is patched when the target
  is below it.
\<close>

definition lower_partition :: "int \<Rightarrow> Kubernetes \<Rightarrow> Kubernetes" where
  "lower_partition target self =
     (if target < statefulset_partition self then set_partition target self else self)"

text \<open>The app status while a refresh is in progress, from the partition now in force.\<close>

definition refreshing_app_status :: "Kubernetes \<Rightarrow> error + status" where
  "refreshing_app_status self =
     (case list_get_last (units self) of
        Inl err \<Rightarrow> Inl err
      | Inr last_unit \<Rightarrow>
          if statefulset_partition self = number last_unit
          then Inr (MaintenanceStatus Refreshing_to_rollback_see_docs)
          else if pause_after self = ALL'
          then Inr (BlockedStatus
                 (Refreshing_check_units_healthy_and_resume (statefulset_partition self)))
          else if pause_after self = FIRST
          then (case list_get (units_not_tearing_down self) 0 of
                  Inl err \<Rightarrow> Inl err
                | Inr unit0 \<Rightarrow>
                    if statefulset_partition self \<ge> number unit0
                    then Inr (BlockedStatus
                           (Refreshing_check_units_healthy_and_resume
                              (statefulset_partition self)))
                    else Inr (MaintenanceStatus Refreshing_to_pause_set_config))
          else Inr (MaintenanceStatus Refreshing_to_pause_set_config))"

text \<open>
  \<^verbatim>\<open>_set_partition_and_app_status\<close>. The result is the exception raised, if any, and
  the object as the method leaves it.
\<close>

definition set_partition_and_app_status ::
  "env \<Rightarrow> bool \<Rightarrow> Kubernetes \<Rightarrow> error option \<times> Kubernetes" where
  "set_partition_and_app_status e handle_action self0 =
     (let self1 = self0\<lparr>app_status_higher_priority := None\<rparr>;
          action0 = resume_refresh_action (event e)
      in
      if \<not> is_leader e then
        (None,
         if handle_action \<and> action0 \<noteq> None
         then action_fail Must_run_action_on_leader self1 else self1)
      else
      let self2 =
            (if pause_after self1 = UNKNOWN
             then self1\<lparr>app_status_higher_priority :=
                          Some (BlockedStatus Pause_after_config_invalid)\<rparr>
             else self1)
      in
      if \<not> in_progress self2 then
        (let self3 = (if statefulset_partition self2 \<noteq> 0 then set_partition 0 self2 else self2);
             self4 = (if handle_action \<and> action0 \<noteq> None
                      then action_fail No_refresh_in_progress self3 else self3)
         in (None,
             case app_status_higher_priority self4 of
               None \<Rightarrow> self4
             | Some st \<Rightarrow> self4\<lparr>app_status := Some st\<rparr>))
      else
      let not_applicable = (handle_action \<and> action0 = Some True \<and> pause_after self2 = NONE);
          self3 = (if not_applicable
                   then action_fail Pause_after_is_none_action_not_applicable self2
                   else self2);
          action = (if not_applicable then None else action0)
      in
      case next_unit_to_refresh_loop (app_controller_revision e) (units_not_tearing_down self3) 0 of
        None \<Rightarrow> (Some UnboundLocalError, self3)
      | Some (next_unit_to_refresh_index, next_unit) \<Rightarrow>
          (case allow_next_unit_to_refresh e handle_action action next_unit_to_refresh_index
                  next_unit self3 of
             (Some err, _, self4) \<Rightarrow> (Some err, self4)
           | (None, allow, self4) \<Rightarrow>
               (case target_partition allow next_unit_to_refresh_index next_unit self4 of
                  Inl err \<Rightarrow> (Some err, self4)
                | Inr target \<Rightarrow>
                    let self5 = lower_partition target self4 in
                    (case refreshing_app_status self5 of
                       Inl err \<Rightarrow> (Some err, self5)
                     | Inr st \<Rightarrow>
                         (None, self5\<lparr>app_status_higher_priority := Some st,
                                       app_status := Some st\<rparr>)))))"


section \<open>A scenario\<close>

text \<open>
  Three units 2, 1, 0 refreshing from controller revision \<open>v1\<close> to \<open>v2\<close>; unit 2 has
  refreshed. The object is the one of the leader, unit 0, in an event that is not an action.
\<close>

definition scenario_units :: "KubernetesUnit list" where
  "scenario_units =
     [\<lparr>number = 2, controller_revision = ''v2'', pod_uid = ''uid2''\<rparr>,
      \<lparr>number = 1, controller_revision = ''v1'', pod_uid = ''uid1''\<rparr>,
      \<lparr>number = 0, controller_revision = ''v1'', pod_uid = ''uid0''\<rparr>]"

definition scenario_env :: env where
  "scenario_env =
     \<lparr>app = ''postgresql-k8s'', this_unit = 0, is_leader = True, event = OtherEvent,
      config_pause_after_unit_refresh = ''first'', trusted = True,
      app_controller_revision = ''v2'',
      pods = [\<lparr>number = 0, controller_revision = ''v1'', pod_uid = ''uid0''\<rparr>,
              \<lparr>number = 1, controller_revision = ''v1'', pod_uid = ''uid1''\<rparr>,
              \<lparr>number = 2, controller_revision = ''v2'', pod_uid = ''uid2''\<rparr>],
      relation_exists = True,
      installed_charm_revision_raw = ''ch:amd64/jammy/postgresql-k8s-381'',
      installed_charm_version = ''14/1.12.0'',
      pinned_workload_version = ''14.11'',
      pinned_workload_container_version = ''sha256:76ef'',
      installed_workload_container_version = Some ''sha256:76ef'',
      valid_charm_version = (\<lambda>version. True),
      is_compatible = (\<lambda>old_charm new_charm old_workload new_workload. True),
      run_pre_refresh_checks_after_1_unit_refreshed = None,
      run_pre_refresh_checks_before_any_units_refreshed = None\<rparr>"

text \<open>
  The databags: every unit has set the config value \<open>first\<close>; unit 2 has started the
  refresh to \<open>v2\<close> and has allowed the next unit to refresh.
\<close>

definition scenario_relation :: PeerRelation where
  "scenario_relation =
     \<lparr>my_unit = empty_unit_databag\<lparr>pause_after_unit_refresh_config := Some ''first''\<rparr>,
      peers = (\<lambda>n. if n = 2
                then Some (empty_unit_databag
                  \<lparr>next_unit_allowed_to_refresh_if_app_controller_revision_hash_equals := Some ''v2'',
                   refresh_started_if_app_controller_revision_hash_in := Some [''v2''],
                   pause_after_unit_refresh_config := Some ''first''\<rparr>)
                else if n = 1
                then Some (empty_unit_databag\<lparr>pause_after_unit_refresh_config := Some ''first''\<rparr>)
                else None),
      my_app = \<lparr>original_workload_version = Some (Some ''14.10''),
                original_workload_container_version = Some ''sha256:0a1b'',
                original_installed_workload_container_matched_pinned_container = Some True,
                original_charm_version = Some ''14/1.11.0'',
                original_charm_revision = Some ''ch:amd64/jammy/postgresql-k8s-380'',
                app_refresh_started_if_app_controller_revision_hash_in = Some []\<rparr>\<rparr>"

definition scenario_world :: world where
  "scenario_world =
     \<lparr>statefulset_partition = 3, relation = scenario_relation, tearing_down = False,
      tearing_down_logged = False,
      had_opportunity_to_raise_partition_after_pod_restart = True,
      refresh_started_local_state = False,
      pod_uids_of_units_that_are_tearing_down_local_state = None\<rparr>"

definition scenario_self :: Kubernetes where
  "scenario_self =
     \<lparr>statefulset_partition = 3, relation = scenario_relation, tearing_down = False,
      tearing_down_logged = False,
      had_opportunity_to_raise_partition_after_pod_restart = True,
      refresh_started_local_state = False,
      pod_uids_of_units_that_are_tearing_down_local_state = None,
      units = scenario_units, units_not_tearing_down = scenario_units,
      in_progress = True, unit_controller_revision = ''v1'', pause_after = FIRST,
      refresh_started = True, unit_status_higher_priority = None,
      app_status_higher_priority = None, partition_patches = [], app_status = None,
      action_failures = [], action_logs = [], action_result = None, checks_run = []\<rparr>"

section \<open>\_start\_refresh\<close>

text \<open>
  Whether \<open>revision\<close> is in \<^verbatim>\<open>"refresh_started_if_app_controller_revision_hash_in"\<close> of
  the databag of one of the units or of the app databag.
\<close>

definition revision_in_refresh_started :: "env \<Rightarrow> Kubernetes \<Rightarrow> string \<Rightarrow> bool" where
  "revision_in_refresh_started e self revision =
     (list_ex (\<lambda>unit. revision \<in> set (case relation_get_key (relation self) (this_unit e) unit
                                            refresh_started_if_app_controller_revision_hash_in of
                                        None \<Rightarrow> [] | Some hashes \<Rightarrow> hashes))
        (units self)
      \<or> revision \<in> set (case app_refresh_started_if_app_controller_revision_hash_in
                                (my_app (relation self)) of
                          None \<Rightarrow> [] | Some hashes \<Rightarrow> hashes))"

text \<open>
  \<^verbatim>\<open>hashes = databag.setdefault(key, tuple())\<close> followed by
  \<^verbatim>\<open>if x not in hashes: hashes.append(x)\<close>, as the new value of the key.
\<close>

definition append_if_missing :: "string \<Rightarrow> string list option \<Rightarrow> string list option" where
  "append_if_missing x entry =
     (let hashes = (case entry of None \<Rightarrow> [] | Some hashes \<Rightarrow> hashes)
      in Some (if x \<in> set hashes then hashes else hashes @ [x]))"

text \<open>
  The refresh has started: \<^verbatim>\<open>self._refresh_started = True\<close>, this unit's controller
  revision appended to \<^verbatim>\<open>"refresh_started_if_app_controller_revision_hash_in"\<close> in this
  unit's databag, and \<^verbatim>\<open>self._refresh_started_local_state.touch()\<close>.
\<close>

definition set_refresh_started :: "Kubernetes \<Rightarrow> Kubernetes" where
  "set_refresh_started self =
     (update_my_unit
        (\<lambda>databag. databag\<lparr>refresh_started_if_app_controller_revision_hash_in :=
           append_if_missing (unit_controller_revision self)
             (refresh_started_if_app_controller_revision_hash_in databag)\<rparr>)
        self)
     \<lparr>refresh_started := True, refresh_started_local_state := True\<rparr>"

text \<open>\<^verbatim>\<open>force_start and not force_start.<parameter>\<close>.\<close>

definition skipped ::
  "ForceRefreshStartAction option \<Rightarrow> (ForceRefreshStartAction \<Rightarrow> bool) \<Rightarrow> bool" where
  "skipped force_start parameter =
     (case force_start of None \<Rightarrow> False | Some action \<Rightarrow> \<not> parameter action)"

text \<open>\<^verbatim>\<open>if force_start: force_start.log(message)\<close> and its like for \<^verbatim>\<open>fail\<close>.\<close>

definition force_start_log ::
  "ForceRefreshStartAction option \<Rightarrow> message \<Rightarrow> Kubernetes \<Rightarrow> Kubernetes" where
  "force_start_log force_start m self = (if force_start \<noteq> None then action_log m self else self)"

definition force_start_fail ::
  "ForceRefreshStartAction option \<Rightarrow> message \<Rightarrow> Kubernetes \<Rightarrow> Kubernetes" where
  "force_start_fail force_start m self = (if force_start \<noteq> None then action_fail m self else self)"

definition check_runs :: "check \<Rightarrow> Kubernetes \<Rightarrow> Kubernetes" where
  "check_runs c self = self\<lparr>checks_run := checks_run self @ [c]\<rparr>"

text \<open>
  The three automatic checks. Each gives whether \<^verbatim>\<open>_start_refresh\<close> goes on
  (\<open>False\<close>: it returns).
\<close>

definition workload_container_check ::
  "env \<Rightarrow> ForceRefreshStartAction option \<Rightarrow> Kubernetes \<Rightarrow> bool \<times> Kubernetes" where
  "workload_container_check e force_start self =
     (if skipped force_start check_workload_container
      then (True, action_log Skipping_workload_container_check self)
      else
        let self1 = check_runs Workload_container_check self in
        if installed_workload_container_version e = Some (pinned_workload_container_version e)
        then (True, force_start_log force_start Checked_workload_container self1)
        else (False,
              force_start_fail force_start Workload_container_not_validated
                (self1\<lparr>unit_status_higher_priority :=
                          Some (BlockedStatus Missing_or_incorrect_OCI_resource)\<rparr>)))"

definition compatibility_check ::
  "env \<Rightarrow> ForceRefreshStartAction option \<Rightarrow> OriginalVersions \<Rightarrow> Kubernetes
     \<Rightarrow> bool \<times> Kubernetes" where
  "compatibility_check e force_start original_versions self =
     (if skipped force_start check_compatibility
      then (True, action_log Skipping_compatibility_check self)
      else
        let self1 = check_runs Compatibility_check self;
            called = (installed_workload_container_matched_pinned_container original_versions
                      \<and> installed_workload_container_version e
                          = Some (pinned_workload_container_version e));
            self2 = (if called then check_runs Is_compatible_call self1 else self1)
        in
        if called
           \<and> is_compatible e (charm original_versions) (installed_charm_version e)
                (workload original_versions) (pinned_workload_version e)
        then (True, force_start_log force_start Checked_compatibility self2)
        else (False,
              force_start_fail force_start Refresh_incompatible
                (self2\<lparr>unit_status_higher_priority :=
                          Some (BlockedStatus Refresh_incompatible_rollback_with_instructions)\<rparr>)))"

definition pre_refresh_checks ::
  "env \<Rightarrow> ForceRefreshStartAction option \<Rightarrow> Kubernetes \<Rightarrow> bool \<times> Kubernetes" where
  "pre_refresh_checks e force_start self =
     (if skipped force_start run_pre_refresh_checks
      then (True, action_log Skipping_pre_refresh_checks self)
      else
        let self1 = check_runs Pre_refresh_checks
                      (force_start_log force_start Running_pre_refresh_checks self)
        in
        case run_pre_refresh_checks_after_1_unit_refreshed e of
          Some exception_message \<Rightarrow>
            (False,
             force_start_fail force_start (Pre_refresh_check_failed exception_message)
               (self1\<lparr>unit_status_higher_priority :=
                  Some (BlockedStatus (Rollback_pre_refresh_check_failed exception_message))\<rparr>))
        | None \<Rightarrow> (True, force_start_log force_start Pre_refresh_checks_successful self1))"

text \<open>
  The part of \<^verbatim>\<open>_start_refresh\<close> from ``Run automatic checks'' up to ``All checks that
  ran succeeded'': whether that point is reached.
\<close>

definition automatic_checks ::
  "env \<Rightarrow> ForceRefreshStartAction option \<Rightarrow> OriginalVersions \<Rightarrow> Kubernetes
     \<Rightarrow> bool \<times> Kubernetes" where
  "automatic_checks e force_start original_versions self =
     (case workload_container_check e force_start self of
        (False, self1) \<Rightarrow> (False, self1)
      | (True, self1) \<Rightarrow>
          (case compatibility_check e force_start original_versions self1 of
             (False, self2) \<Rightarrow> (False, self2)
           | (True, self2) \<Rightarrow> pre_refresh_checks e force_start self2))"

text \<open>
  \<^verbatim>\<open>_start_refresh\<close>. The result is the exception raised, if any, and the object as the
  method leaves it.
\<close>

definition start_refresh :: "env \<Rightarrow> Kubernetes \<Rightarrow> error option \<times> Kubernetes" where
  "start_refresh e self0 =
     (case units self0 of
        [] \<Rightarrow> (Some IndexError, self0)
      | unit0 # _ \<Rightarrow>
          let (failures, force_start) =
                ForceRefreshStartAction_init (event e) (this_unit e) (number unit0)
                  (in_progress self0);
              self1 = self0\<lparr>action_failures := action_failures self0 @ failures,
                            unit_status_higher_priority := None\<rparr>
          in
          if \<not> in_progress self1 then (None, self1)
          else
          let self2 = self1\<lparr>refresh_started :=
                        revision_in_refresh_started e self1 (app_controller_revision e)\<rparr>
          in
          if \<not> this_unit e = number unit0 then (None, self2)
          else if unit_controller_revision self2 \<noteq> app_controller_revision e
          then (None, force_start_fail force_start (Unit_has_not_yet_refreshed (this_unit e)) self2)
          else if \<not> length (units self2) > 1 then (Some AssertionError, self2)
          else
          (case from_app_databag (valid_charm_version e) (my_app (relation self2)) of
             Inl err \<Rightarrow> (Some err, self2)
           | Inr original_versions \<Rightarrow>
               let self3 =
                     (if \<not> refresh_started self2
                         \<and> charm original_versions = installed_charm_version e
                         \<and> Some (workload_container original_versions)
                             = installed_workload_container_version e
                      then set_refresh_started self2 else self2)
               in
               if refresh_started self3
               then (None, force_start_fail force_start Refresh_already_started self3)
               else
               (case automatic_checks e force_start original_versions self3 of
                  (False, self4) \<Rightarrow> (None, self4)
                | (True, self4) \<Rightarrow>
                    let self5 = set_refresh_started self4 in
                    (None,
                     if force_start \<noteq> None
                     then action_set_result (Workload_refreshed_on_unit (this_unit e)) self5
                     else self5))))"


text \<open>
  A rollback in the scenario: units 2 and 1 had refreshed to \<open>v2\<close>, the user refreshes
  back to the original charm and container (controller revision \<open>v1\<close>), and unit 2 has
  been created again from \<open>v1\<close>. The object is the one of unit 2.
\<close>

definition rollback_env :: env where
  "rollback_env =
     scenario_env\<lparr>this_unit := 2, is_leader := False, app_controller_revision := ''v1'',
       pods := [\<lparr>number = 0, controller_revision = ''v1'', pod_uid = ''uid0''\<rparr>,
                \<lparr>number = 1, controller_revision = ''v2'', pod_uid = ''uid1''\<rparr>,
                \<lparr>number = 2, controller_revision = ''v1'', pod_uid = ''uid2b''\<rparr>],
       installed_charm_revision_raw := ''ch:amd64/jammy/postgresql-k8s-380'',
       installed_charm_version := ''14/1.11.0'',
       pinned_workload_version := ''14.10'',
       pinned_workload_container_version := ''sha256:0a1b'',
       installed_workload_container_version := Some ''sha256:0a1b''\<rparr>"

definition rollback_self :: Kubernetes where
  "rollback_self =
     scenario_self\<lparr>
       relation := scenario_relation\<lparr>
         my_unit := empty_unit_databag
           \<lparr>refresh_started_if_app_controller_revision_hash_in := Some [''v2''],
            pause_after_unit_refresh_config := Some ''first''\<rparr>\<rparr>,
       units := [\<lparr>number = 2, controller_revision = ''v1'', pod_uid = ''uid2b''\<rparr>,
                 \<lparr>number = 1, controller_revision = ''v2'', pod_uid = ''uid1''\<rparr>,
                 \<lparr>number = 0, controller_revision = ''v1'', pod_uid = ''uid0''\<rparr>],
       units_not_tearing_down :=
                [\<lparr>number = 2, controller_revision = ''v1'', pod_uid = ''uid2b''\<rparr>,
                 \<lparr>number = 1, controller_revision = ''v2'', pod_uid = ''uid1''\<rparr>,
                 \<lparr>number = 0, controller_revision = ''v1'', pod_uid = ''uid0''\<rparr>],
       unit_controller_revision := ''v1'', refresh_started := False\<rparr>"

text \<open>
  The scenario as unit 2 sees it when it has just refreshed to \<open>v2\<close>, before the refresh
  has started: an event that is not an action, on unit 2.
\<close>

definition refresh_env :: env where
  "refresh_env = scenario_env\<lparr>this_unit := 2, is_leader := False\<rparr>"

definition refresh_self :: Kubernetes where
  "refresh_self =
     scenario_self\<lparr>
       relation := scenario_relation\<lparr>
         my_unit := empty_unit_databag\<lparr>pause_after_unit_refresh_config := Some ''first''\<rparr>,
         peers := (\<lambda>n. if n = 0 \<or> n = 1
                     then Some (empty_unit_databag
                            \<lparr>pause_after_unit_refresh_config := Some ''first''\<rparr>)
                     else None)\<rparr>,
       unit_controller_revision := ''v2'', refresh_started := False\<rparr>"

text \<open>The version snapshot of the scenario's app databag.\<close>

definition scenario_original_versions :: OriginalVersions where
  "scenario_original_versions =
     \<lparr>workload = Some ''14.10'', workload_container = ''sha256:0a1b'',
      installed_workload_container_matched_pinned_container = True,
      charm = ''14/1.11.0'', charm_revision_raw = ''ch:amd64/jammy/postgresql-k8s-380''\<rparr>"

section \<open>The properties next\_unit\_allowed\_to\_refresh and workload\_allowed\_to\_start\<close>

text \<open>The getter of \<^verbatim>\<open>next_unit_allowed_to_refresh\<close>.\<close>

definition next_unit_allowed_to_refresh :: "Kubernetes \<Rightarrow> bool" where
  "next_unit_allowed_to_refresh self =
     (next_unit_allowed_to_refresh_if_app_controller_revision_hash_equals
        (my_unit (relation self))
      = Some (unit_controller_revision self))"

text \<open>
  \<^verbatim>\<open>workload_allowed_to_start\<close>. Its loop over the units and its look at the app databag
  return \<^verbatim>\<open>True\<close> when this unit's controller revision is in
  \<^verbatim>\<open>"refresh_started_if_app_controller_revision_hash_in"\<close> of one of them.
\<close>

definition workload_allowed_to_start :: "env \<Rightarrow> Kubernetes \<Rightarrow> error + bool" where
  "workload_allowed_to_start e self =
     (if \<not> in_progress self then Inr True
      else if revision_in_refresh_started e self (unit_controller_revision self) then Inr True
      else (case from_app_databag (valid_charm_version e) (my_app (relation self)) of
              Inl err \<Rightarrow> Inl err
            | Inr original_versions \<Rightarrow>
                Inr (charm original_versions = installed_charm_version e
                     \<and> Some (workload_container original_versions)
                         = installed_workload_container_version e)))"

text \<open>A value that charm code may assign to the property.\<close>

datatype py_value = PyTrue | PyFalse | PyNone | PyInt int | PyStr string

text \<open>
  The setter of \<^verbatim>\<open>next_unit_allowed_to_refresh\<close>. The result is the exception raised, if
  any, and the object as the setter leaves it.
\<close>

definition set_next_unit_allowed_to_refresh ::
  "env \<Rightarrow> py_value \<Rightarrow> Kubernetes \<Rightarrow> error option \<times> Kubernetes" where
  "set_next_unit_allowed_to_refresh e v self =
     (if v \<noteq> PyTrue then (Some ValueError, self)
      else (case workload_allowed_to_start e self of
              Inl err \<Rightarrow> (Some err, self)
            | Inr allowed \<Rightarrow>
                if \<not> allowed then (Some Exception', self)
                else if next_unit_allowed_to_refresh_if_app_controller_revision_hash_equals
                          (my_unit (relation self))
                        \<noteq> Some (unit_controller_revision self)
                then set_partition_and_app_status e False
                       (update_my_unit
                          (\<lambda>databag. databag
                             \<lparr>next_unit_allowed_to_refresh_if_app_controller_revision_hash_equals :=
                                Some (unit_controller_revision self)\<rparr>)
                          self)
                else (None, self)))"

section \<open>\_Kubernetes.\_\_init\_\_\<close>

text \<open>
  The object when \<^verbatim>\<open>__init__\<close> begins: the world as the event finds it, no attribute
  assigned yet, nothing done yet.
\<close>

definition new_Kubernetes :: "world \<Rightarrow> Kubernetes" where
  "new_Kubernetes w =
     \<lparr>statefulset_partition = statefulset_partition w, relation = relation w,
      tearing_down = tearing_down w, tearing_down_logged = tearing_down_logged w,
      had_opportunity_to_raise_partition_after_pod_restart =
        had_opportunity_to_raise_partition_after_pod_restart w,
      refresh_started_local_state = refresh_started_local_state w,
      pod_uids_of_units_that_are_tearing_down_local_state =
        pod_uids_of_units_that_are_tearing_down_local_state w,
      units = [], units_not_tearing_down = [], in_progress = False,
      unit_controller_revision = [], pause_after = UNKNOWN, refresh_started = False,
      unit_status_higher_priority = None, app_status_higher_priority = None,
      partition_patches = [], app_status = None, action_failures = [], action_logs = [],
      action_result = None, checks_run = []\<rparr>"

text \<open>The world an object leaves behind.\<close>

definition world_of :: "Kubernetes \<Rightarrow> world" where
  "world_of self =
     \<lparr>statefulset_partition = statefulset_partition self, relation = relation self,
      tearing_down = tearing_down self, tearing_down_logged = tearing_down_logged self,
      had_opportunity_to_raise_partition_after_pod_restart =
        had_opportunity_to_raise_partition_after_pod_restart self,
      refresh_started_local_state = refresh_started_local_state self,
      pod_uids_of_units_that_are_tearing_down_local_state =
        pod_uids_of_units_that_are_tearing_down_local_state self\<rparr>"

text \<open>
  One statement after another: the next one runs on the object the one before left, unless
  that one raised.
\<close>

definition then_do ::
  "error option \<times> Kubernetes \<Rightarrow> (Kubernetes \<Rightarrow> error option \<times> Kubernetes)
     \<Rightarrow> error option \<times> Kubernetes" where
  "then_do r f = (case r of (Some err, self) \<Rightarrow> (Some err, self) | (None, self) \<Rightarrow> f self)"

text \<open>\<^verbatim>\<open>sorted(unsorted_units, reverse=True)\<close>: from the highest unit number to the lowest.\<close>

definition sorted_units :: "KubernetesUnit list \<Rightarrow> KubernetesUnit list" where
  "sorted_units unsorted_units = rev (sort_key number unsorted_units)"

text \<open>Python's truth value of an optional string.\<close>

definition truthy :: "string option \<Rightarrow> bool" where
  "truthy v = (case v of None \<Rightarrow> False | Some str \<Rightarrow> str \<noteq> [])"

text \<open>\<^verbatim>\<open>databag.setdefault(key, tuple())\<close>, as the new value of the key.\<close>

definition setdefault :: "string list option \<Rightarrow> string list option" where
  "setdefault entry = Some (case entry of None \<Rightarrow> [] | Some xs \<Rightarrow> xs)"

text \<open>
  \<^verbatim>\<open>xs = databag.setdefault(key, tuple())\<close> followed by a loop over \<open>new\<close> that appends
  each item that is not in \<^verbatim>\<open>xs\<close>.
\<close>

definition append_all_missing :: "string list \<Rightarrow> string list option \<Rightarrow> string list option" where
  "append_all_missing new entry = foldl (\<lambda>entry x. append_if_missing x entry) (setdefault entry) new"

text \<open>
  The statements of \<^verbatim>\<open>__init__\<close>, in order. Reading the versions from the charm's files
  and from the pod changes nothing and is left to the inputs.
\<close>

text \<open>``Save state if this unit is tearing down.''\<close>

definition save_tearing_down :: "env \<Rightarrow> Kubernetes \<Rightarrow> error option \<times> Kubernetes" where
  "save_tearing_down e self =
     (None,
      case event e of
        RelationDepartedEvent departing_app departing_number \<Rightarrow>
          if departing_app = app e \<and> departing_number = this_unit e
          then self\<lparr>tearing_down := True\<rparr> else self
      | _ \<Rightarrow> self)"

text \<open>``Check if Juju app was deployed with \<^verbatim>\<open>--trust\<close>.''\<close>

definition check_trust :: "env \<Rightarrow> Kubernetes \<Rightarrow> error option \<times> Kubernetes" where
  "check_trust e self =
     (if \<not> trusted e
      then (Some KubernetesJujuAppNotTrusted,
            if is_leader e then self\<lparr>app_status := Some (BlockedStatus Run_juju_trust)\<rparr>
            else self)
      else (None, self))"

text \<open>
  ``Get app \& unit controller revisions from Kubernetes API.'' \<^verbatim>\<open>this_pod\<close> is unbound
  when no pod is this unit's.
\<close>

definition get_units :: "env \<Rightarrow> Kubernetes \<Rightarrow> error option \<times> Kubernetes" where
  "get_units e self =
     (if find (\<lambda>pod. number pod = this_unit e) (pods e) = None
      then (Some UnboundLocalError, self)
      else
        let self1 = self\<lparr>units := sorted_units (pods e)\<rparr> in
        case find (\<lambda>unit. number unit = this_unit e) (units self1) of
          None \<Rightarrow> (Some StopIteration, self1)
        | Some unit \<Rightarrow>
            (None, self1\<lparr>unit_controller_revision := controller_revision unit\<rparr>))"

text \<open>``Check if this unit is tearing down.''\<close>

definition check_tearing_down :: "env \<Rightarrow> Kubernetes \<Rightarrow> error option \<times> Kubernetes" where
  "check_tearing_down e self =
     (if tearing_down self then
        let self1 = (case event e of
                       ActionEvent a \<Rightarrow>
                         if a \<noteq> OtherAction then action_fail Unit_tearing_down self else self
                     | _ \<Rightarrow> self);
            self2 = (if \<not> tearing_down_logged self1
                     then self1\<lparr>tearing_down_logged := True\<rparr> else self1)
        in (Some UnitTearingDown, self2)
      else (None, self))"

text \<open>``Determine \<^verbatim>\<open>self._in_progress\<close>.''\<close>

definition determine_in_progress :: "env \<Rightarrow> Kubernetes \<Rightarrow> error option \<times> Kubernetes" where
  "determine_in_progress e self =
     (None,
      self\<lparr>in_progress :=
              list_ex (\<lambda>unit. controller_revision unit \<noteq> app_controller_revision e)
                (units self)\<rparr>)"

text \<open>``Raise StatefulSet partition during stop event.''\<close>

definition raise_partition_during_stop_event ::
  "env \<Rightarrow> Kubernetes \<Rightarrow> error option \<times> Kubernetes" where
  "raise_partition_during_stop_event e self =
     (if event e = StopEvent \<and> in_progress self then
        if tearing_down self then (Some AssertionError, self)
        else (None,
              if statefulset_partition self < this_unit e
              then set_partition (this_unit e) self else self)
      else (None, self))"

text \<open>\<^verbatim>\<open>charm_json.PeerRelation.from_endpoint\<close>.\<close>

definition get_relation :: "env \<Rightarrow> Kubernetes \<Rightarrow> error option \<times> Kubernetes" where
  "get_relation e self =
     (if \<not> relation_exists e then (Some PeerRelationMissing, self) else (None, self))"

text \<open>``Raise StatefulSet partition after pod restart.''\<close>

definition raise_partition_after_pod_restart ::
  "env \<Rightarrow> Kubernetes \<Rightarrow> error option \<times> Kubernetes" where
  "raise_partition_after_pod_restart e self =
     then_do
       (if \<not> had_opportunity_to_raise_partition_after_pod_restart self \<and> in_progress self then
          if tearing_down self then (Some AssertionError, self)
          else if statefulset_partition self < this_unit e then
            (case find (\<lambda>unit. number unit = this_unit e) (units self) of
               None \<Rightarrow> (Some StopIteration, set_partition (this_unit e) self)
             | Some unit \<Rightarrow>
                 (None,
                  update_my_unit
                    (\<lambda>databag. databag
                       \<lparr>unused_pod_uid_after_pod_restart_and_partition_raised :=
                          Some (pod_uid unit)\<rparr>)
                    (set_partition (this_unit e) self)))
          else (None, self)
        else (None, self))
       (\<lambda>self. (None, self\<lparr>had_opportunity_to_raise_partition_after_pod_restart := True\<rparr>))"

text \<open>``Workaround: each unit sets the config value it sees in its unit databag.''\<close>

definition set_pause_after_config :: "env \<Rightarrow> Kubernetes \<Rightarrow> error option \<times> Kubernetes" where
  "set_pause_after_config e self =
     (None,
      update_my_unit
        (\<lambda>databag. databag\<lparr>pause_after_unit_refresh_config :=
           Some (config_pause_after_unit_refresh e)\<rparr>)
        self)"

text \<open>``Propagate local state to this unit's databag'': the pod uids.\<close>

definition propagate_tearing_down_uids :: "env \<Rightarrow> Kubernetes \<Rightarrow> error option \<times> Kubernetes" where
  "propagate_tearing_down_uids e self =
     (None,
      case pod_uids_of_units_that_are_tearing_down_local_state self of
        None \<Rightarrow> self
      | Some uids \<Rightarrow>
          update_my_unit
            (\<lambda>databag. databag\<lparr>pod_uids_of_units_that_are_tearing_down :=
               append_all_missing uids (pod_uids_of_units_that_are_tearing_down databag)\<rparr>)
            self)"

text \<open>``Save state in databag if this unit sees another unit tearing down.''\<close>

definition save_departing_unit :: "env \<Rightarrow> Kubernetes \<Rightarrow> error option \<times> Kubernetes" where
  "save_departing_unit e self =
     (case event e of
        RelationDepartedEvent departing_app departing_number \<Rightarrow>
          if departing_app = app e then
            (case map pod_uid (filter (\<lambda>unit. number unit = departing_number) (units self)) of
               [] \<Rightarrow> (None, self)
             | [uid] \<Rightarrow>
                 let tearing_down_uids2 =
                       append_if_missing uid
                         (pod_uids_of_units_that_are_tearing_down (my_unit (relation self)))
                 in (None,
                     (update_my_unit
                        (\<lambda>databag. databag\<lparr>pod_uids_of_units_that_are_tearing_down :=
                                               tearing_down_uids2\<rparr>)
                        self)
                     \<lparr>pod_uids_of_units_that_are_tearing_down_local_state :=
                        tearing_down_uids2\<rparr>)
             | _ \<Rightarrow> (Some AssertionError, self))
          else (None, self)
      | _ \<Rightarrow> (None, self))"

text \<open>\<^verbatim>\<open>self._units_not_tearing_down\<close>.\<close>

definition determine_units_not_tearing_down ::
  "env \<Rightarrow> Kubernetes \<Rightarrow> error option \<times> Kubernetes" where
  "determine_units_not_tearing_down e self =
     (let tearing_down_uids3 =
            concat (map (\<lambda>unit. case relation_get_key (relation self) (this_unit e) unit
                                       pod_uids_of_units_that_are_tearing_down of
                                  None \<Rightarrow> [] | Some uids \<Rightarrow> uids)
                      (units self))
      in (None,
          self\<lparr>units_not_tearing_down :=
                  filter (\<lambda>unit. pod_uid unit \<notin> set tearing_down_uids3) (units self)\<rparr>))"

text \<open>``Trigger Juju event on other units'' during a stop event.\<close>

definition save_revision_during_stop_event ::
  "env \<Rightarrow> Kubernetes \<Rightarrow> error option \<times> Kubernetes" where
  "save_revision_during_stop_event e self =
     (None,
      if event e = StopEvent \<and> in_progress self
      then update_my_unit
             (\<lambda>databag. databag\<lparr>unused_controller_revision_during_last_stop_event :=
                Some (unit_controller_revision self)\<rparr>)
             self
      else self)"

text \<open>``Propagate local state to this unit's databag'': the refresh has started.\<close>

definition propagate_refresh_started :: "env \<Rightarrow> Kubernetes \<Rightarrow> error option \<times> Kubernetes" where
  "propagate_refresh_started e self =
     (None,
      if refresh_started_local_state self
      then update_my_unit
             (\<lambda>databag. databag\<lparr>refresh_started_if_app_controller_revision_hash_in :=
                append_if_missing (unit_controller_revision self)
                  (refresh_started_if_app_controller_revision_hash_in databag)\<rparr>)
             self
      else self)"

text \<open>A change of the app databag.\<close>

definition update_my_app :: "(app_databag \<Rightarrow> app_databag) \<Rightarrow> Kubernetes \<Rightarrow> Kubernetes" where
  "update_my_app f self =
     self\<lparr>relation := (relation self)\<lparr>my_app := f (my_app (relation self))\<rparr>\<rparr>"

text \<open>
  ``Propagate \<^verbatim>\<open>"refresh_started_if_app_controller_revision_hash_in"\<close> in unit databags to
  app databag'', on the leader.
\<close>

definition propagate_refresh_started_to_app ::
  "env \<Rightarrow> Kubernetes \<Rightarrow> error option \<times> Kubernetes" where
  "propagate_refresh_started_to_app e self =
     (None,
      if is_leader e
      then update_my_app
             (\<lambda>databag. databag\<lparr>app_refresh_started_if_app_controller_revision_hash_in :=
                append_all_missing
                  (concat (map (\<lambda>unit. case relation_get_key (relation self) (this_unit e) unit
                                              refresh_started_if_app_controller_revision_hash_in of
                                         None \<Rightarrow> [] | Some hashes \<Rightarrow> hashes)
                             (units self)))
                  (app_refresh_started_if_app_controller_revision_hash_in databag)\<rparr>)
             self
      else self)"

text \<open>``Determine \<^verbatim>\<open>self._pause_after\<close>.''\<close>

definition set_pause_after :: "env \<Rightarrow> Kubernetes \<Rightarrow> error option \<times> Kubernetes" where
  "set_pause_after e self =
     (case determine_pause_after (relation self) (this_unit e) (units self)
             (units_not_tearing_down self) of
        Inl err \<Rightarrow> (Some err, self)
      | Inr p \<Rightarrow> (None, self\<lparr>pause_after := p\<rparr>))"

text \<open>
  ``Clean up state that is no longer in use'' and ``Save versions in app databag for next
  refresh'', when no refresh is in progress.
\<close>

definition clean_up_and_save_versions :: "env \<Rightarrow> Kubernetes \<Rightarrow> error option \<times> Kubernetes" where
  "clean_up_and_save_versions e self =
     (if \<not> in_progress self then
        let self1 =
              (update_my_unit
                 (\<lambda>databag. databag\<lparr>refresh_started_if_app_controller_revision_hash_in := None,
                                       pod_uids_of_units_that_are_tearing_down := None\<rparr>)
                 self)
              \<lparr>refresh_started_local_state := False,
                pod_uids_of_units_that_are_tearing_down_local_state := None\<rparr>
        in
        if is_leader e then
          let self2 = update_my_app
                        (\<lambda>databag. databag
                           \<lparr>app_refresh_started_if_app_controller_revision_hash_in := None\<rparr>)
                        self1
          in
          (case installed_workload_container_version e of
             None \<Rightarrow> (None, self2)
           | Some installed \<Rightarrow>
               if installed = [] then (None, self2)
               else
                 let matches_pin = (installed = pinned_workload_container_version e) in
                 (case OriginalVersions_new
                         (if matches_pin then Some (pinned_workload_version e) else None)
                         installed matches_pin
                         (installed_charm_version e) (installed_charm_revision_raw e) of
                    Inl err \<Rightarrow> (Some err, self2)
                  | Inr original_versions \<Rightarrow>
                      (None, update_my_app (write_to_app_databag original_versions) self2)))
        else (None, self1)
      else (None, self))"

text \<open>
  The version snapshot read for \<^verbatim>\<open>self._rollback_command\<close>; the command itself is a
  string for log and action messages.
\<close>

definition get_rollback_command :: "env \<Rightarrow> Kubernetes \<Rightarrow> error option \<times> Kubernetes" where
  "get_rollback_command e self =
     (if in_progress self \<or> (is_leader e \<and> truthy (installed_workload_container_version e))
      then (case from_app_databag (valid_charm_version e) (my_app (relation self)) of
              Inl err \<Rightarrow> (Some err, self)
            | Inr original_versions \<Rightarrow> (None, self))
      else (None, self))"

text \<open>The pre-refresh-check action.\<close>

definition pre_refresh_check_action :: "env \<Rightarrow> Kubernetes \<Rightarrow> error option \<times> Kubernetes" where
  "pre_refresh_check_action e self =
     (None,
      if event e = ActionEvent PreRefreshCheck then
        if in_progress self then action_fail Refresh_already_in_progress self
        else if is_leader e then
          if truthy (installed_workload_container_version e) then
            (case run_pre_refresh_checks_before_any_units_refreshed e of
               Some exception_message \<Rightarrow>
                 action_fail (Charm_not_ready_for_refresh exception_message) self
             | None \<Rightarrow> action_set_result Charm_ready_for_refresh self)
          else action_fail Workload_container_not_running self
        else action_fail Must_run_action_on_leader self
      else self)"

text \<open>
  \<^verbatim>\<open>_Kubernetes.__init__\<close>: the evaluation of one event. The result is the exception
  raised, if any, and the object as it is then.
\<close>

definition Kubernetes_init :: "env \<Rightarrow> world \<Rightarrow> error option \<times> Kubernetes" where
  "Kubernetes_init e w =
     foldl then_do (None, new_Kubernetes w)
       [save_tearing_down e,
        check_trust e,
        get_units e,
        check_tearing_down e,
        determine_in_progress e,
        raise_partition_during_stop_event e,
        get_relation e,
        raise_partition_after_pod_restart e,
        set_pause_after_config e,
        propagate_tearing_down_uids e,
        save_departing_unit e,
        determine_units_not_tearing_down e,
        save_revision_during_stop_event e,
        propagate_refresh_started e,
        propagate_refresh_started_to_app e,
        set_pause_after e,
        clean_up_and_save_versions e,
        get_rollback_command e,
        pre_refresh_check_action e,
        start_refresh e,
        set_partition_and_app_status e True]"


text \<open>
  The scenario with unit 2 as the leader: unit 2 has just refreshed to \<open>v2\<close>, the refresh
  has not started, the partition is 3.
\<close>

definition leader_env :: env where
  "leader_env = scenario_env\<lparr>this_unit := 2\<rparr>"

definition leader_world :: world where
  "leader_world = scenario_world\<lparr>relation := relation refresh_self\<rparr>"

text \<open>
  What \<^verbatim>\<open>__init__\<close> determines as \<^verbatim>\<open>self._in_progress\<close>, read from the inputs: a pod's
  controller revision is not the app's.
\<close>

definition pods_in_progress :: "env \<Rightarrow> bool" where
  "pods_in_progress e =
     list_ex (\<lambda>unit. controller_revision unit \<noteq> app_controller_revision e) (pods e)"

text \<open>
  A sequence of evaluations (each a run of \<^verbatim>\<open>__init__\<close> on some unit, with its own
  inputs, databags and local state) on one StatefulSet: each runs on the partition the one
  before left, and the partitions in force after each evaluation are collected.
\<close>

fun partitions_after_evaluations :: "(env \<times> world) list \<Rightarrow> int \<Rightarrow> int list" where
  "partitions_after_evaluations [] p = []"
| "partitions_after_evaluations ((e, w) # rest) p =
     (let p' = statefulset_partition
                 (snd (Kubernetes_init e (w\<lparr>statefulset_partition := p\<rparr>)))
      in p' # partitions_after_evaluations rest p')"

text \<open>
  The scenario on the leader unit 2 after its refresh has started, with the partition at 1
  (lowered there earlier in this refresh), in a stop event of unit 2.
\<close>

definition stop_env :: env where
  "stop_env = scenario_env\<lparr>this_unit := 2, event := StopEvent\<rparr>"

definition started_world :: world where
  "started_world =
     scenario_world\<lparr>
       statefulset_partition := 1,
       relation := (relation refresh_self)\<lparr>
         my_unit := empty_unit_databag
           \<lparr>refresh_started_if_app_controller_revision_hash_in := Some [''v2''],
            pause_after_unit_refresh_config := Some ''first''\<rparr>,
         my_app := (my_app scenario_relation)
           \<lparr>app_refresh_started_if_app_controller_revision_hash_in := Some [''v2'']\<rparr>\<rparr>,
       refresh_started_local_state := True\<rparr>"


text \<open>
  The rollback while the app is scaled down from four units to three: the pod of unit 3
  still exists and is tearing down (unit 2 has seen it depart and has recorded its pod uid),
  so unit 2 is the highest unit that is not tearing down. The StatefulSet partition is 1.
\<close>

definition scale_down_env :: env where
  "scale_down_env =
     rollback_env\<lparr>pods := pods rollback_env
       @ [\<lparr>number = 3, controller_revision = ''v2'', pod_uid = ''uid3''\<rparr>]\<rparr>"

definition scale_down_world :: world where
  "scale_down_world =
     scenario_world\<lparr>
       statefulset_partition := 1,
       relation := scenario_relation\<lparr>
         my_unit := empty_unit_databag
           \<lparr>refresh_started_if_app_controller_revision_hash_in := Some [''v2''],
            pause_after_unit_refresh_config := Some ''first'',
            pod_uids_of_units_that_are_tearing_down := Some [''uid3'']\<rparr>,
         peers := (\<lambda>n. if n = 0 \<or> n = 1
                     then Some (empty_unit_databag
                            \<lparr>pause_after_unit_refresh_config := Some ''first''\<rparr>)
                     else None)\<rparr>\<rparr>"

section \<open>Properties of \_PauseAfter\<close>

lemma PauseAfter_gt_irrefl: "\<not> PauseAfter_gt a a"
  by (simp add: PauseAfter_gt_def)

lemma PauseAfter_gt_trans: "PauseAfter_gt a b \<Longrightarrow> PauseAfter_gt b c \<Longrightarrow> PauseAfter_gt a c"
  by (simp add: PauseAfter_gt_def)

lemma priorities_inj: "priorities a = priorities b \<Longrightarrow> a = b"
  by (cases a; cases b) simp_all

lemma PauseAfter_gt_total: "a \<noteq> b \<Longrightarrow> PauseAfter_gt a b \<or> PauseAfter_gt b a"
  by (cases a; cases b) (simp_all add: PauseAfter_gt_def)

lemma PauseAfter_gt_chain:
  "PauseAfter_gt FIRST NONE \<and> PauseAfter_gt ALL' FIRST \<and> PauseAfter_gt UNKNOWN ALL'"
  by (simp add: PauseAfter_gt_def)

lemma PauseAfter_of_unrecognised:
  "v \<notin> {''none'', ''first'', ''all'', ''unknown''} \<Longrightarrow> PauseAfter_of v = UNKNOWN"
  by (simp add: PauseAfter_of_def missing_def)

text \<open>
  Claim C9. The claim: \<^verbatim>\<open>_PauseAfter\<close> is totally ordered with none < first < all < unknown,
  its comparisons consistent with the priorities 0, 1, 2, 3 and with \<^verbatim>\<open>total_ordering\<close>,
  and a string that names no member gives UNKNOWN. The code: \<^verbatim>\<open>>\<close> follows the priorities
  (\<open>PauseAfter_gt_chain\<close>, \<open>PauseAfter_gt_total\<close> above), and an unrecognised string gives
  UNKNOWN (\<open>PauseAfter_of_unrecognised\<close>), but \<^verbatim>\<open><\<close>, \<^verbatim>\<open><=\<close> and \<^verbatim>\<open>>=\<close> are
  \<^verbatim>\<open>str\<close>'s: \<^verbatim>\<open>_PauseAfter.NONE < _PauseAfter.FIRST\<close> is false although
  \<^verbatim>\<open>_PauseAfter.FIRST > _PauseAfter.NONE\<close> is true, and
  \<^verbatim>\<open>_PauseAfter.ALL < _PauseAfter.FIRST\<close> is true.
\<close>

theorem PauseAfter_lt_is_not_by_priorities:
  "PauseAfter_gt FIRST NONE \<and> \<not> PauseAfter_lt NONE FIRST
   \<and> PauseAfter_lt ALL' FIRST \<and> \<not> PauseAfter_gt FIRST ALL'
   \<and> \<not> PauseAfter_le NONE FIRST \<and> PauseAfter_ge NONE FIRST"
  by (simp add: PauseAfter_gt_def PauseAfter_lt_def PauseAfter_le_def PauseAfter_ge_def)

section \<open>Properties of the version snapshot\<close>

lemma post_init_Inr: "post_init ov = Inr ov' \<Longrightarrow>
  ov' = ov \<and> (workload ov \<noteq> None \<longleftrightarrow> installed_workload_container_matched_pinned_container ov)"
  by (auto simp: post_init_def split: if_splits)

lemma OriginalVersions_new_Inr:
  "OriginalVersions_new w c m ch r = Inr ov \<Longrightarrow>
   (w \<noteq> None \<longleftrightarrow> m) \<and> workload ov = w
   \<and> installed_workload_container_matched_pinned_container ov = m"
  unfolding OriginalVersions_new_def by (auto dest!: post_init_Inr)

lemma from_app_databag_Inr:
  "from_app_databag valid databag = Inr ov \<Longrightarrow>
   (workload ov \<noteq> None \<longleftrightarrow> installed_workload_container_matched_pinned_container ov)"
  unfolding from_app_databag_def
  by (auto split: option.splits sum.splits dest!: OriginalVersions_new_Inr)

text \<open>
  Claim C8. A version snapshot that was constructed satisfies: the workload version is not
  \<^verbatim>\<open>None\<close> iff the installed container matched the pinned container. A construction
  that breaks this raises \<^verbatim>\<open>ValueError\<close>. So does reading such a snapshot from the app
  databag, a snapshot read back satisfies the invariant, and what
  \<^verbatim>\<open>write_to_app_databag\<close> writes for a constructed snapshot satisfies it too.
\<close>

theorem OriginalVersions_invariant:
  "(OriginalVersions_new w c m ch r = Inr ov \<longrightarrow>
      (workload ov \<noteq> None \<longleftrightarrow> installed_workload_container_matched_pinned_container ov))
   \<and> (\<not> (w \<noteq> None \<longleftrightarrow> m) \<longrightarrow> OriginalVersions_new w c m ch r = Inl ValueError)
   \<and> ((w \<noteq> None \<longleftrightarrow> m) \<longrightarrow> (\<exists>ov. OriginalVersions_new w c m ch r = Inr ov))
   \<and> (from_app_databag valid databag = Inr ov' \<longrightarrow>
        (workload ov' \<noteq> None \<longleftrightarrow> installed_workload_container_matched_pinned_container ov'))
   \<and> (OriginalVersions_new w c m ch r = Inr ov \<longrightarrow>
        (\<exists>w' m'. original_workload_version (write_to_app_databag ov databag) = Some w'
           \<and> original_installed_workload_container_matched_pinned_container
                (write_to_app_databag ov databag) = Some m'
           \<and> (w' \<noteq> None \<longleftrightarrow> m')))"
proof -
  have 1: "OriginalVersions_new w c m ch r = Inr ov \<longrightarrow>
      (workload ov \<noteq> None \<longleftrightarrow> installed_workload_container_matched_pinned_container ov)"
    by (auto dest!: OriginalVersions_new_Inr)
  have 2: "\<not> (w \<noteq> None \<longleftrightarrow> m) \<longrightarrow> OriginalVersions_new w c m ch r = Inl ValueError"
    by (auto simp: OriginalVersions_new_def post_init_def)
  have 3: "(w \<noteq> None \<longleftrightarrow> m) \<longrightarrow> (\<exists>ov. OriginalVersions_new w c m ch r = Inr ov)"
    by (auto simp: OriginalVersions_new_def post_init_def)
  have 4: "from_app_databag valid databag = Inr ov' \<longrightarrow>
      (workload ov' \<noteq> None \<longleftrightarrow> installed_workload_container_matched_pinned_container ov')"
    by (auto dest!: from_app_databag_Inr)
  have 5: "OriginalVersions_new w c m ch r = Inr ov \<longrightarrow>
        (\<exists>w' m'. original_workload_version (write_to_app_databag ov databag) = Some w'
           \<and> original_installed_workload_container_matched_pinned_container
                (write_to_app_databag ov databag) = Some m'
           \<and> (w' \<noteq> None \<longleftrightarrow> m'))"
    using 1 by (simp add: write_to_app_databag_def)
  from 1 2 3 4 5 show ?thesis by blast
qed

theorem OriginalVersions_invariant_witness:
  "OriginalVersions_new (Some ''14.11'') ''sha256:76ef'' True ''14/1.12.0'' ''ch:amd64/jammy/postgresql-k8s-381''
     = Inr \<lparr>workload = Some ''14.11'', workload_container = ''sha256:76ef'',
            installed_workload_container_matched_pinned_container = True,
            charm = ''14/1.12.0'', charm_revision_raw = ''ch:amd64/jammy/postgresql-k8s-381''\<rparr>
   \<and> OriginalVersions_new (Some ''14.11'') ''sha256:76ef'' False ''14/1.12.0'' ''local:x'' = Inl ValueError
   \<and> OriginalVersions_new None ''sha256:76ef'' True ''14/1.12.0'' ''local:x'' = Inl ValueError
   \<and> from_app_databag (\<lambda>v. True)
        \<lparr>original_workload_version = Some None,
         original_workload_container_version = Some ''sha256:76ef'',
         original_installed_workload_container_matched_pinned_container = Some False,
         original_charm_version = Some ''14/1.12.0'',
         original_charm_revision = Some ''local:x'',
         app_refresh_started_if_app_controller_revision_hash_in = None\<rparr>
     = Inr \<lparr>workload = None, workload_container = ''sha256:76ef'',
            installed_workload_container_matched_pinned_container = False,
            charm = ''14/1.12.0'', charm_revision_raw = ''local:x''\<rparr>
   \<and> from_app_databag (\<lambda>v. True)
        \<lparr>original_workload_version = Some (Some ''14.11''),
         original_workload_container_version = Some ''sha256:76ef'',
         original_installed_workload_container_matched_pinned_container = Some False,
         original_charm_version = Some ''14/1.12.0'',
         original_charm_revision = Some ''local:x'',
         app_refresh_started_if_app_controller_revision_hash_in = None\<rparr>
     = Inl ValueError"
  using OriginalVersions_invariant [of "Some ''14.11''" "''sha256:76ef''" True "''14/1.12.0''"
      "''ch:amd64/jammy/postgresql-k8s-381''"]
    OriginalVersions_invariant [of "Some ''14.11''" "''sha256:76ef''" False "''14/1.12.0''" "''local:x''"]
    OriginalVersions_invariant [of None "''sha256:76ef''" True "''14/1.12.0''" "''local:x''"]
  by (simp add: OriginalVersions_new_def post_init_def from_app_databag_def CharmVersion_def)

section \<open>Properties of the pause policy\<close>

lemma foldl_max_PauseAfter:
  "m = foldl (\<lambda>maxitem item. if PauseAfter_gt item maxitem then item else maxitem) x xs \<Longrightarrow>
   m \<in> set (x # xs) \<and> (\<forall>y \<in> set (x # xs). priorities y \<le> priorities m)"
proof (induction xs arbitrary: x m)
  case Nil
  then show ?case by simp
next
  case (Cons a xs)
  let ?x' = "if PauseAfter_gt a x then a else x"
  from Cons.prems have m: "m = foldl (\<lambda>maxitem item. if PauseAfter_gt item maxitem then item else maxitem) ?x' xs"
    by simp
  from Cons.IH [OF m] have IH: "m \<in> set (?x' # xs)" "\<forall>y \<in> set (?x' # xs). priorities y \<le> priorities m"
    by blast+
  show ?case
  proof (cases "PauseAfter_gt a x")
    case True
    with IH show ?thesis by (auto simp: PauseAfter_gt_def)
  next
    case False
    with IH show ?thesis by (auto simp: PauseAfter_gt_def)
  qed
qed

lemma max_PauseAfter_Inr:
  "items \<noteq> [] \<Longrightarrow> \<exists>m. max_PauseAfter items = Inr m \<and> m \<in> set items
     \<and> (\<forall>y \<in> set items. priorities y \<le> priorities m)"
  unfolding max_PauseAfter_def
  by (cases items) (use foldl_max_PauseAfter in \<open>auto simp del: foldl_Cons\<close>)

lemma filter_raising_most_up_to_date:
  "all_units = unit0 # rest \<Longrightarrow> not_tearing_down = unit0' # rest' \<Longrightarrow>
   filter_raising (is_most_up_to_date all_units not_tearing_down) us =
     Inr (filter (\<lambda>unit. controller_revision unit = controller_revision unit0
                        \<or> controller_revision unit = controller_revision unit0') us)"
  by (induction us) (auto simp: is_most_up_to_date_def)

text \<open>
  The pause policy that \<^verbatim>\<open>__init__\<close> determines. With \<open>unit0\<close> the highest unit and
  \<open>unit0'\<close> the highest unit that is not tearing down, the most-up-to-date units are the
  units whose controller revision is that of \<open>unit0\<close> or of \<open>unit0'\<close>. When the databags
  of these units hold at least one pause value, the effective pause policy is one of these
  values and no value has a higher priority (none < first < all < unknown): it is their
  maximum, absent values left out. When the values present are first and all, it is all.
  When no value is present at all, \<^verbatim>\<open>max\<close> raises \<^verbatim>\<open>ValueError\<close>.
\<close>

theorem determine_pause_after_is_max_of_present_values:
  assumes "all_units = unit0 # rest" and "not_tearing_down = unit0' # rest'"
    and "present_values = pause_after_values rel me
           (filter (\<lambda>unit. controller_revision unit = controller_revision unit0
                          \<or> controller_revision unit = controller_revision unit0') all_units)"
  shows "(present_values \<noteq> [] \<longrightarrow>
           (\<exists>m. determine_pause_after rel me all_units not_tearing_down = Inr m
              \<and> m \<in> PauseAfter_of ` set present_values
              \<and> (\<forall>v \<in> set present_values. priorities (PauseAfter_of v) \<le> priorities m)))
       \<and> (set present_values = {''first'', ''all''} \<longrightarrow>
            determine_pause_after rel me all_units not_tearing_down = Inr ALL')
       \<and> (present_values = [] \<longrightarrow>
            determine_pause_after rel me all_units not_tearing_down = Inl ValueError)"
proof -
  have det: "determine_pause_after rel me all_units not_tearing_down =
      max_PauseAfter (map PauseAfter_of present_values)"
    unfolding determine_pause_after_def
    by (simp add: filter_raising_most_up_to_date [OF assms(1,2)] assms(3))
  have nonempty: "\<exists>m. max_PauseAfter (map PauseAfter_of present_values) = Inr m
      \<and> m \<in> PauseAfter_of ` set present_values
      \<and> (\<forall>v \<in> set present_values. priorities (PauseAfter_of v) \<le> priorities m)"
    if "present_values \<noteq> []"
    using max_PauseAfter_Inr [of "map PauseAfter_of present_values"] that by auto
  have first_all: "max_PauseAfter (map PauseAfter_of present_values) = Inr ALL'"
    if fa: "set present_values = {''first'', ''all''}"
  proof -
    have "set present_values \<noteq> {}" unfolding fa by simp
    then have "present_values \<noteq> []" by simp
    from nonempty [OF this] obtain m where
      m: "max_PauseAfter (map PauseAfter_of present_values) = Inr m"
        "m \<in> PauseAfter_of ` set present_values"
        "\<forall>v \<in> set present_values. priorities (PauseAfter_of v) \<le> priorities m"
      by blast
    have img: "PauseAfter_of ` set present_values = {FIRST, ALL'}"
      unfolding fa by (auto simp: PauseAfter_of_def)
    from m(2) have "m = FIRST \<or> m = ALL'" unfolding img by simp
    moreover have "''all'' \<in> set present_values" unfolding fa by simp
    with m(3) have "priorities (PauseAfter_of ''all'') \<le> priorities m" by blast
    then have "2 \<le> priorities m" by (simp add: PauseAfter_of_def)
    ultimately have "m = ALL'" by auto
    with m(1) show ?thesis by simp
  qed
  have empty: "max_PauseAfter (map PauseAfter_of present_values) = Inl ValueError" if "present_values = []"
    using that by (simp add: max_PauseAfter_def)
  show ?thesis unfolding det using nonempty first_all empty by blast
qed

theorem determine_pause_after_is_max_of_present_values_witness:
  "determine_pause_after
     \<lparr>my_unit = empty_unit_databag\<lparr>pause_after_unit_refresh_config := Some ''first''\<rparr>,
      peers = (\<lambda>n. if n = 1 then Some (empty_unit_databag\<lparr>pause_after_unit_refresh_config := Some ''all''\<rparr>)
                    else if n = 0 then Some empty_unit_databag else None),
      my_app = empty_app_databag\<rparr>
     2
     [\<lparr>number = 2, controller_revision = ''rev2'', pod_uid = ''c''\<rparr>,
      \<lparr>number = 1, controller_revision = ''rev2'', pod_uid = ''b''\<rparr>,
      \<lparr>number = 0, controller_revision = ''rev2'', pod_uid = ''a''\<rparr>]
     [\<lparr>number = 2, controller_revision = ''rev2'', pod_uid = ''c''\<rparr>,
      \<lparr>number = 1, controller_revision = ''rev2'', pod_uid = ''b''\<rparr>,
      \<lparr>number = 0, controller_revision = ''rev2'', pod_uid = ''a''\<rparr>]
   = Inr ALL'"
  using determine_pause_after_is_max_of_present_values
    [of "[\<lparr>number = 2, controller_revision = ''rev2'', pod_uid = ''c''\<rparr>,
          \<lparr>number = 1, controller_revision = ''rev2'', pod_uid = ''b''\<rparr>,
          \<lparr>number = 0, controller_revision = ''rev2'', pod_uid = ''a''\<rparr>]"
        "\<lparr>number = 2, controller_revision = ''rev2'', pod_uid = ''c''\<rparr>"
        "[\<lparr>number = 1, controller_revision = ''rev2'', pod_uid = ''b''\<rparr>,
          \<lparr>number = 0, controller_revision = ''rev2'', pod_uid = ''a''\<rparr>]"
        "[\<lparr>number = 2, controller_revision = ''rev2'', pod_uid = ''c''\<rparr>,
          \<lparr>number = 1, controller_revision = ''rev2'', pod_uid = ''b''\<rparr>,
          \<lparr>number = 0, controller_revision = ''rev2'', pod_uid = ''a''\<rparr>]"
        "\<lparr>number = 2, controller_revision = ''rev2'', pod_uid = ''c''\<rparr>"
        "[\<lparr>number = 1, controller_revision = ''rev2'', pod_uid = ''b''\<rparr>,
          \<lparr>number = 0, controller_revision = ''rev2'', pod_uid = ''a''\<rparr>]"
        "[''first'', ''all'']"
        "\<lparr>my_unit = empty_unit_databag\<lparr>pause_after_unit_refresh_config := Some ''first''\<rparr>,
          peers = (\<lambda>n. if n = 1 then Some (empty_unit_databag\<lparr>pause_after_unit_refresh_config := Some ''all''\<rparr>)
                    else if n = 0 then Some empty_unit_databag else None),
          my_app = empty_app_databag\<rparr>"
        2]
  by (simp add: pause_after_values_def relation_get_key_def relation_get_def
      empty_unit_databag_def)

text \<open>
  Claim C5: the effective pause policy is the maximum of the pause values present in the
  databags of the most-up-to-date units and, when there is none, it is unknown rather than a
  failure. The code does not do this. The comment in \<^verbatim>\<open>__init__\<close> has the units on the
  controller revision of the highest unit that is not tearing down included ``to ensure that
  \<^verbatim>\<open>len(pause_after_values) >= 1\<close>'', and \<^verbatim>\<open>max\<close> is called without a default; but the
  databags of all these units can lack a value. Here unit 0 evaluates while the only
  most-up-to-date unit, unit 3 that has just been added on the new controller revision, is
  missing from the relation: no pause value is found, and \<^verbatim>\<open>max\<close> raises
  \<^verbatim>\<open>ValueError\<close> instead of the policy being unknown.
\<close>

theorem determine_pause_after_no_values_raises:
  "determine_pause_after
     \<lparr>my_unit = empty_unit_databag\<lparr>pause_after_unit_refresh_config := Some ''none''\<rparr>,
      peers = (\<lambda>n. if n = 1 \<or> n = 2
                    then Some (empty_unit_databag\<lparr>pause_after_unit_refresh_config := Some ''none''\<rparr>)
                    else None),
      my_app = empty_app_databag\<rparr>
     0
     [\<lparr>number = 3, controller_revision = ''rev2'', pod_uid = ''d''\<rparr>,
      \<lparr>number = 2, controller_revision = ''rev1'', pod_uid = ''c''\<rparr>,
      \<lparr>number = 1, controller_revision = ''rev1'', pod_uid = ''b''\<rparr>,
      \<lparr>number = 0, controller_revision = ''rev1'', pod_uid = ''a''\<rparr>]
     [\<lparr>number = 3, controller_revision = ''rev2'', pod_uid = ''d''\<rparr>,
      \<lparr>number = 2, controller_revision = ''rev1'', pod_uid = ''c''\<rparr>,
      \<lparr>number = 1, controller_revision = ''rev1'', pod_uid = ''b''\<rparr>,
      \<lparr>number = 0, controller_revision = ''rev1'', pod_uid = ''a''\<rparr>]
   = Inl ValueError
   \<and> Inl ValueError \<noteq> (Inr UNKNOWN :: error + PauseAfter)"
  by (simp add: determine_pause_after_def is_most_up_to_date_def pause_after_values_def
      relation_get_key_def relation_get_def max_PauseAfter_def)

section \<open>Properties of \_set\_partition\_and\_app\_status\<close>

lemma allow_next_unit_to_refresh_frame:
  "allow_next_unit_to_refresh e handle_action action i u self = (err, allow, self') \<Longrightarrow>
   statefulset_partition self' = statefulset_partition self
   \<and> partition_patches self' = partition_patches self
   \<and> units_not_tearing_down self' = units_not_tearing_down self
   \<and> units self' = units self \<and> pause_after self' = pause_after self
   \<and> relation self' = relation self"
  unfolding allow_next_unit_to_refresh_def action_fail_def action_log_def action_set_result_def
  by (auto split: if_splits option.splits list.splits)

lemma lower_partition_le:
  "statefulset_partition (lower_partition target self) \<le> statefulset_partition self"
  by (simp add: lower_partition_def set_partition_def)

lemma lower_partition_min:
  "statefulset_partition (lower_partition target self) = min (statefulset_partition self) target"
  by (simp add: lower_partition_def set_partition_def)

lemma lower_partition_patches:
  "partition_patches (lower_partition target self) =
     (if target < statefulset_partition self then partition_patches self @ [target]
      else partition_patches self)"
  by (simp add: lower_partition_def set_partition_def)

lemma set_partition_and_app_status_only_lowers:
  assumes "in_progress self"
  shows "set_partition_and_app_status e handle_action self = (err, self') \<Longrightarrow>
    (statefulset_partition self' = statefulset_partition self
       \<and> partition_patches self' = partition_patches self)
    \<or> (statefulset_partition self' < statefulset_partition self
       \<and> partition_patches self' = partition_patches self @ [statefulset_partition self'])"
  using assms
  unfolding set_partition_and_app_status_def Let_def
  apply (simp add: action_fail_def split: if_splits option.splits prod.splits sum.splits)
  apply (auto dest!: allow_next_unit_to_refresh_frame
      simp: lower_partition_def set_partition_def action_fail_def split: if_splits)
  done



lemmas scenario_defs =
  scenario_self_def scenario_env_def scenario_units_def scenario_relation_def
  empty_unit_databag_def

lemmas set_partition_and_app_status_defs =
  set_partition_and_app_status_def allow_next_unit_to_refresh_def target_partition_def
  lower_partition_def set_partition_def refreshing_app_status_def resume_refresh_action_def
  relation_get_key_def relation_get_def list_get_def list_get_last_def
  action_fail_def action_log_def action_set_result_def

lemma scenario_pause_at_first_unit:
  "set_partition_and_app_status scenario_env True scenario_self =
     (None, scenario_self\<lparr>statefulset_partition := 2, partition_patches := [2],
        app_status_higher_priority :=
          Some (BlockedStatus (Refreshing_check_units_healthy_and_resume 2)),
        app_status := Some (BlockedStatus (Refreshing_check_units_healthy_and_resume 2))\<rparr>)"
  by (simp add: scenario_defs set_partition_and_app_status_defs)

lemma next_unit_to_refresh_loop_Some:
  "next_unit_to_refresh_loop app_revision us k = Some (i, u) \<Longrightarrow>
   k \<le> i \<and> i - k < length us \<and> u = us ! (i - k)
   \<and> (\<forall>j < i - k. controller_revision (us ! j) = app_revision)"
proof (induction app_revision us k rule: next_unit_to_refresh_loop.induct)
  case (1 app_revision index)
  then show ?case by simp
next
  case (2 app_revision unit index)
  then show ?case by auto
next
  case (3 app_revision unit unit' rest index)
  show ?case
  proof (cases "controller_revision unit \<noteq> app_revision")
    case True
    with 3 show ?thesis by auto
  next
    case False
    with 3 have rec: "next_unit_to_refresh_loop app_revision (unit' # rest) (Suc index) = Some (i, u)"
      by simp
    from 3(1) [OF False rec]
    have IH: "Suc index \<le> i" "i - Suc index < length (unit' # rest)"
      "u = (unit' # rest) ! (i - Suc index)"
      "\<forall>j < i - Suc index. controller_revision ((unit' # rest) ! j) = app_revision"
      by blast+
    from IH(1) have eq: "i - index = Suc (i - Suc index)" by simp
    have "\<forall>j < i - index. controller_revision ((unit # unit' # rest) ! j) = app_revision"
    proof (intro allI impI)
      fix j assume j: "j < i - index"
      show "controller_revision ((unit # unit' # rest) ! j) = app_revision"
      proof (cases j)
        case 0
        with False show ?thesis by simp
      next
        case (Suc j')
        with j eq have "j' < i - Suc index" by simp
        with IH(4) Suc show ?thesis by simp
      qed
    qed
    with IH eq show ?thesis by simp
  qed
qed

lemma next_unit_to_refresh_loop_nonempty:
  "us \<noteq> [] \<Longrightarrow> \<exists>i u. next_unit_to_refresh_loop app_revision us k = Some (i, u)"
  by (induction app_revision us k rule: next_unit_to_refresh_loop.induct) auto

lemma allow_next_unit_to_refresh_when_all_allowed:
  assumes started: "refresh_started self"
    and next_unit: "next_unit_to_refresh_loop (app_controller_revision e)
                      (units_not_tearing_down self) 0 = Some (index, next_unit)"
    and allowed: "\<forall>unit \<in> set (units_not_tearing_down self).
                    controller_revision unit = app_controller_revision e \<longrightarrow>
                    relation_get_key (relation self) (this_unit e) unit
                      next_unit_allowed_to_refresh_if_app_controller_revision_hash_equals
                    = Some (app_controller_revision e)"
  shows "allow_next_unit_to_refresh e handle_action None index next_unit self =
           (None, pause_after self = NONE \<or> (pause_after self = FIRST \<and> index \<ge> 2), self)"
proof -
  let ?key = "next_unit_allowed_to_refresh_if_app_controller_revision_hash_equals"
  from next_unit_to_refresh_loop_Some [OF next_unit]
  have index: "index < length (units_not_tearing_down self)"
    and up_to_date: "\<forall>j < index. controller_revision (units_not_tearing_down self ! j)
                       = app_controller_revision e"
    by auto
  have "\<forall>unit \<in> set (take index (units_not_tearing_down self)).
          relation_get_key (relation self) (this_unit e) unit ?key
            = Some (app_controller_revision e)"
  proof
    fix unit assume "unit \<in> set (take index (units_not_tearing_down self))"
    then obtain j where j: "j < index" "unit = units_not_tearing_down self ! j"
      using index by (auto simp: in_set_conv_nth)
    with up_to_date have "controller_revision unit = app_controller_revision e" by simp
    moreover from j index have "unit \<in> set (units_not_tearing_down self)" by simp
    ultimately show "relation_get_key (relation self) (this_unit e) unit ?key
        = Some (app_controller_revision e)"
      using allowed by blast
  qed
  then have none_found:
    "find (\<lambda>unit. relation_get_key (relation self) (this_unit e) unit ?key
                    \<noteq> Some (app_controller_revision e))
       (take index (units_not_tearing_down self)) = None"
    by (simp add: find_None_iff)
  show ?thesis
    unfolding allow_next_unit_to_refresh_def using started none_found by simp
qed

lemma target_partition_in_range:
  assumes "index < length (units_not_tearing_down self)"
  shows "target_partition allow index next_unit self =
      Inr (if allow then number next_unit
           else number (units_not_tearing_down self ! (index - 1)))"
proof -
  have "nat (max (int index - 1) 0) = index - 1" by simp
  moreover from assms have "index - 1 < length (units_not_tearing_down self)" by simp
  ultimately show ?thesis by (simp add: target_partition_def list_get_def)
qed

lemma refreshing_app_status_partition:
  "statefulset_partition
     (snd (case refreshing_app_status self of
             Inl err \<Rightarrow> (Some err, self)
           | Inr st \<Rightarrow> (None, self\<lparr>app_status_higher_priority := Some st,
                                    app_status := Some st\<rparr>)))
   = statefulset_partition self"
  by (cases "refreshing_app_status self") simp_all

text \<open>
  Claim C6. On the leader, with a refresh in progress that has started, no resume-refresh
  action in the event, and every up-to-date unit that is not tearing down having allowed
  the next unit to refresh for the app's controller revision: the next unit to refresh is
  allowed to refresh iff the pause policy is none, or is first and the next unit to refresh
  is at index 2 or more of the refresh order (so the policies all and unknown never allow
  it); and the partition is then lowered to the minimum of the partition in force and the
  number of the next unit to refresh if it is allowed, else the number of the unit before it.
\<close>

theorem automatic_progression_iff_pause_policy_permits:
  assumes leader: "is_leader e" and progress: "in_progress self"
    and started: "refresh_started self"
    and no_action: "resume_refresh_action (event e) = None"
    and next_unit: "next_unit_to_refresh_loop (app_controller_revision e)
                      (units_not_tearing_down self) 0 = Some (index, next_unit)"
    and allowed: "\<forall>unit \<in> set (units_not_tearing_down self).
                    controller_revision unit = app_controller_revision e \<longrightarrow>
                    relation_get_key (relation self) (this_unit e) unit
                      next_unit_allowed_to_refresh_if_app_controller_revision_hash_equals
                    = Some (app_controller_revision e)"
  shows "allow_next_unit_to_refresh e handle_action None index next_unit self =
           (None, pause_after self = NONE \<or> (pause_after self = FIRST \<and> index \<ge> 2), self)
       \<and> (pause_after self = NONE \<longrightarrow>
            fst (snd (allow_next_unit_to_refresh e handle_action None index next_unit self)))
       \<and> (pause_after self = FIRST \<longrightarrow>
            fst (snd (allow_next_unit_to_refresh e handle_action None index next_unit self))
              = (index \<ge> 2))
       \<and> (pause_after self = ALL' \<longrightarrow>
            \<not> fst (snd (allow_next_unit_to_refresh e handle_action None index next_unit self)))
       \<and> statefulset_partition (snd (set_partition_and_app_status e handle_action self)) =
           min (statefulset_partition self)
             (if pause_after self = NONE \<or> (pause_after self = FIRST \<and> index \<ge> 2)
              then number next_unit
              else number (units_not_tearing_down self ! (index - 1)))"
proof -
  let ?permits = "pause_after self = NONE \<or> (pause_after self = FIRST \<and> index \<ge> 2)"
  let ?target = "if ?permits then number next_unit
                 else number (units_not_tearing_down self ! (index - 1))"
  have allow: "allow_next_unit_to_refresh e handle_action None index next_unit self =
      (None, ?permits, self)"
    by (rule allow_next_unit_to_refresh_when_all_allowed [OF started next_unit allowed])
  have partition: "statefulset_partition (snd (set_partition_and_app_status e handle_action self))
      = min (statefulset_partition self) ?target"
    if self3: "self3 = self\<lparr>app_status_higher_priority := x\<rparr>"
      and x: "x = (if pause_after self = UNKNOWN
                   then Some (BlockedStatus Pause_after_config_invalid) else None)"
    for self3 x
  proof -
    have same: "refresh_started self3 = refresh_started self"
      "units_not_tearing_down self3 = units_not_tearing_down self"
      "relation self3 = relation self" "pause_after self3 = pause_after self"
      "in_progress self3 = in_progress self"
      "statefulset_partition self3 = statefulset_partition self"
      by (simp_all add: self3)
    have allow3: "allow_next_unit_to_refresh e handle_action None index next_unit self3 =
        (None, ?permits, self3)"
      using allow_next_unit_to_refresh_when_all_allowed [of self3 e index next_unit handle_action]
        started next_unit allowed by (simp add: same)
    from next_unit_to_refresh_loop_Some [OF next_unit]
    have "index < length (units_not_tearing_down self3)" by (simp add: same)
    from target_partition_in_range [OF this, of ?permits next_unit]
    have target3: "target_partition ?permits index next_unit self3 = Inr ?target"
      by (simp add: same)
    have self2: "(if pause_after (self\<lparr>app_status_higher_priority := None\<rparr>) = UNKNOWN
           then self\<lparr>app_status_higher_priority := None\<rparr>
                  \<lparr>app_status_higher_priority :=
                     Some (BlockedStatus Pause_after_config_invalid)\<rparr>
           else self\<lparr>app_status_higher_priority := None\<rparr>) = self3"
      by (simp add: self3 x)
    have run: "set_partition_and_app_status e handle_action self =
        (case refreshing_app_status (lower_partition ?target self3) of
           Inl err \<Rightarrow> (Some err, lower_partition ?target self3)
         | Inr st \<Rightarrow> (None, (lower_partition ?target self3)
                               \<lparr>app_status_higher_priority := Some st, app_status := Some st\<rparr>))"
      unfolding set_partition_and_app_status_def Let_def self2
      using leader progress no_action next_unit
      by (simp add: same allow3 target3)
    show ?thesis
      unfolding run refreshing_app_status_partition lower_partition_min same ..
  qed
  from allow partition [OF refl refl] show ?thesis by simp
qed

theorem automatic_progression_iff_pause_policy_permits_witness:
  "is_leader scenario_env \<and> in_progress scenario_self \<and> refresh_started scenario_self
   \<and> resume_refresh_action (event scenario_env) = None
   \<and> next_unit_to_refresh_loop (app_controller_revision scenario_env)
        (units_not_tearing_down scenario_self) 0
      = Some (1, \<lparr>number = 1, controller_revision = ''v1'', pod_uid = ''uid1''\<rparr>)
   \<and> allow_next_unit_to_refresh scenario_env True None 1
        \<lparr>number = 1, controller_revision = ''v1'', pod_uid = ''uid1''\<rparr> scenario_self
      = (None, False, scenario_self)
   \<and> allow_next_unit_to_refresh scenario_env True None 1
        \<lparr>number = 1, controller_revision = ''v1'', pod_uid = ''uid1''\<rparr>
        (scenario_self\<lparr>pause_after := NONE\<rparr>)
      = (None, True, scenario_self\<lparr>pause_after := NONE\<rparr>)
   \<and> statefulset_partition (snd (set_partition_and_app_status scenario_env True scenario_self))
      = 2
   \<and> statefulset_partition
        (snd (set_partition_and_app_status scenario_env True (scenario_self\<lparr>pause_after := NONE\<rparr>)))
      = 1"
  using automatic_progression_iff_pause_policy_permits
      [of scenario_env scenario_self 1
        "\<lparr>number = 1, controller_revision = ''v1'', pod_uid = ''uid1''\<rparr>" True]
    automatic_progression_iff_pause_policy_permits
      [of scenario_env "scenario_self\<lparr>pause_after := NONE\<rparr>" 1
        "\<lparr>number = 1, controller_revision = ''v1'', pod_uid = ''uid1''\<rparr>" True]
  by (simp add: scenario_defs relation_get_key_def relation_get_def resume_refresh_action_def)

section \<open>Properties of \_start\_refresh\<close>

lemma set_refresh_started_simps:
  "refresh_started (set_refresh_started self)"
  "refresh_started_local_state (set_refresh_started self)"
  "checks_run (set_refresh_started self) = checks_run self"
  "unit_status_higher_priority (set_refresh_started self) = unit_status_higher_priority self"
  "refresh_started_if_app_controller_revision_hash_in
     (my_unit (relation (set_refresh_started self)))
   = append_if_missing (unit_controller_revision self)
       (refresh_started_if_app_controller_revision_hash_in (my_unit (relation self)))"
  by (simp_all add: set_refresh_started_def update_my_unit_def)

lemma append_if_missing_member:
  "\<exists>hashes. append_if_missing x entry = Some hashes \<and> x \<in> set hashes"
  by (simp add: append_if_missing_def Let_def)

lemma revision_in_refresh_started_frame:
  "revision_in_refresh_started e (self\<lparr>action_failures := a\<rparr>) r
     = revision_in_refresh_started e self r"
  "revision_in_refresh_started e (self\<lparr>unit_status_higher_priority := b\<rparr>) r
     = revision_in_refresh_started e self r"
  "revision_in_refresh_started e (self\<lparr>refresh_started := c\<rparr>) r
     = revision_in_refresh_started e self r"
  by (simp_all add: revision_in_refresh_started_def)

lemma force_start_fail_simps:
  "refresh_started (force_start_fail force_start m self) = refresh_started self"
  "refresh_started_local_state (force_start_fail force_start m self)
     = refresh_started_local_state self"
  "checks_run (force_start_fail force_start m self) = checks_run self"
  "unit_status_higher_priority (force_start_fail force_start m self)
     = unit_status_higher_priority self"
  "relation (force_start_fail force_start m self) = relation self"
  by (simp_all add: force_start_fail_def action_fail_def)

text \<open>
  Claim C3, as the code has it. On the highest unit of all the app's pods
  (\<^verbatim>\<open>self._units[0]\<close>, whether or not a pod is tearing down), with a refresh in progress
  and the unit on the app's controller revision: if the unit's installed charm version and
  workload container digest equal those of the version snapshot in the app databag, \<^verbatim>\<open>_start_refresh\<close> returns
  with the refresh marked as started, no unit status set, and no check run: neither the
  workload container check, nor the compatibility check, nor \<^verbatim>\<open>is_compatible\<close>, nor
  the pre-refresh checks. Where the refresh had not been marked as started in a databag
  before, the unit's controller revision is then in
  \<^verbatim>\<open>"refresh_started_if_app_controller_revision_hash_in"\<close> of the unit's databag and the
  local state file exists.
\<close>

theorem rollback_starts_refresh_without_checks:
  assumes "in_progress self"
    and "units self = unit0 # unit1 # rest"
    and "this_unit e = number unit0"
    and "unit_controller_revision self = app_controller_revision e"
    and "from_app_databag (valid_charm_version e) (my_app (relation self)) = Inr original_versions"
    and "charm original_versions = installed_charm_version e"
    and "Some (workload_container original_versions) = installed_workload_container_version e"
  shows "\<exists>self'. start_refresh e self = (None, self')
           \<and> refresh_started self'
           \<and> checks_run self' = checks_run self
           \<and> unit_status_higher_priority self' = None
           \<and> (\<not> revision_in_refresh_started e self (app_controller_revision e) \<longrightarrow>
                 refresh_started_local_state self'
                 \<and> (\<exists>hashes. refresh_started_if_app_controller_revision_hash_in
                                (my_unit (relation self')) = Some hashes
                              \<and> unit_controller_revision self \<in> set hashes))"
proof -
  obtain failures force_start where init:
    "ForceRefreshStartAction_init (event e) (this_unit e) (number unit0) (in_progress self)
       = (failures, force_start)"
    by (cases "ForceRefreshStartAction_init (event e) (this_unit e) (number unit0)
                 (in_progress self)") auto
  show ?thesis
    unfolding start_refresh_def
    using assms init
    by (cases "revision_in_refresh_started e self (app_controller_revision e)")
      (simp_all add: Let_def revision_in_refresh_started_frame force_start_fail_simps
        set_refresh_started_simps append_if_missing_member)
qed

lemmas start_refresh_defs =
  start_refresh_def ForceRefreshStartAction_init_def revision_in_refresh_started_def
  from_app_databag_def CharmVersion_def OriginalVersions_new_def post_init_def
  set_refresh_started_def update_my_unit_def append_if_missing_def
  automatic_checks_def workload_container_check_def compatibility_check_def
  pre_refresh_checks_def skipped_def force_start_log_def force_start_fail_def check_runs_def
  action_fail_def action_log_def action_set_result_def relation_get_key_def relation_get_def

theorem rollback_starts_refresh_without_checks_witness:
  "in_progress rollback_self
   \<and> this_unit rollback_env = 2
   \<and> unit_controller_revision rollback_self = app_controller_revision rollback_env
   \<and> from_app_databag (valid_charm_version rollback_env) (my_app (relation rollback_self))
       = Inr \<lparr>workload = Some ''14.10'', workload_container = ''sha256:0a1b'',
              installed_workload_container_matched_pinned_container = True,
              charm = ''14/1.11.0'', charm_revision_raw = ''ch:amd64/jammy/postgresql-k8s-380''\<rparr>
   \<and> \<not> revision_in_refresh_started rollback_env rollback_self ''v1''
   \<and> fst (start_refresh rollback_env rollback_self) = None
   \<and> refresh_started (snd (start_refresh rollback_env rollback_self))
   \<and> refresh_started_local_state (snd (start_refresh rollback_env rollback_self))
   \<and> checks_run (snd (start_refresh rollback_env rollback_self)) = []
   \<and> refresh_started_if_app_controller_revision_hash_in
        (my_unit (relation (snd (start_refresh rollback_env rollback_self))))
      = Some [''v2'', ''v1'']"
  using rollback_starts_refresh_without_checks [of rollback_self
      "\<lparr>number = 2, controller_revision = ''v1'', pod_uid = ''uid2b''\<rparr>"
      "\<lparr>number = 1, controller_revision = ''v2'', pod_uid = ''uid1''\<rparr>"
      "[\<lparr>number = 0, controller_revision = ''v1'', pod_uid = ''uid0''\<rparr>]"
      rollback_env
      "\<lparr>workload = Some ''14.10'', workload_container = ''sha256:0a1b'',
        installed_workload_container_matched_pinned_container = True,
        charm = ''14/1.11.0'', charm_revision_raw = ''ch:amd64/jammy/postgresql-k8s-380''\<rparr>"]
  by (simp add: rollback_env_def rollback_self_def scenario_defs start_refresh_defs)

lemma checks_run_frame:
  "checks_run (action_log m self) = checks_run self"
  "checks_run (action_fail m self) = checks_run self"
  "checks_run (force_start_log force_start m self) = checks_run self"
  "checks_run (force_start_fail force_start m self) = checks_run self"
  "checks_run (check_runs c self) = checks_run self @ [c]"
  "checks_run (self\<lparr>unit_status_higher_priority := st\<rparr>) = checks_run self"
  by (simp_all add: action_log_def action_fail_def force_start_log_def force_start_fail_def
      check_runs_def)

lemma workload_container_check_result:
  "workload_container_check e force_start self = (ok, self') \<Longrightarrow>
   ok = (skipped force_start check_workload_container
         \<or> installed_workload_container_version e = Some (pinned_workload_container_version e))
   \<and> checks_run self' = checks_run self
        @ (if skipped force_start check_workload_container then []
           else [Workload_container_check])"
  unfolding workload_container_check_def Let_def
  by (auto simp: checks_run_frame split: if_splits)

lemma compatibility_check_result:
  "compatibility_check e force_start original_versions self = (ok, self') \<Longrightarrow>
   ok = (skipped force_start check_compatibility
         \<or> (installed_workload_container_matched_pinned_container original_versions
            \<and> installed_workload_container_version e = Some (pinned_workload_container_version e)
            \<and> is_compatible e (charm original_versions) (installed_charm_version e)
                 (workload original_versions) (pinned_workload_version e)))
   \<and> checks_run self' = checks_run self
        @ (if skipped force_start check_compatibility then []
           else Compatibility_check
                # (if installed_workload_container_matched_pinned_container original_versions
                      \<and> installed_workload_container_version e
                          = Some (pinned_workload_container_version e)
                   then [Is_compatible_call] else []))"
  unfolding compatibility_check_def Let_def
  by (auto simp: checks_run_frame split: if_splits)

lemma pre_refresh_checks_result:
  "pre_refresh_checks e force_start self = (ok, self') \<Longrightarrow>
   ok = (skipped force_start run_pre_refresh_checks
         \<or> run_pre_refresh_checks_after_1_unit_refreshed e = None)
   \<and> checks_run self' = checks_run self
        @ (if skipped force_start run_pre_refresh_checks then [] else [Pre_refresh_checks])"
  unfolding pre_refresh_checks_def Let_def
  by (auto simp: checks_run_frame split: if_splits option.splits)

lemma automatic_checks_result:
  assumes "automatic_checks e force_start original_versions self = (ok, self')"
  shows "ok =
      ((skipped force_start check_workload_container
         \<or> installed_workload_container_version e = Some (pinned_workload_container_version e))
       \<and> (skipped force_start check_compatibility
         \<or> (installed_workload_container_matched_pinned_container original_versions
            \<and> installed_workload_container_version e = Some (pinned_workload_container_version e)
            \<and> is_compatible e (charm original_versions) (installed_charm_version e)
                 (workload original_versions) (pinned_workload_version e)))
       \<and> (skipped force_start run_pre_refresh_checks
         \<or> run_pre_refresh_checks_after_1_unit_refreshed e = None))"
    and "checks_run self' = checks_run self
      @ (if skipped force_start check_workload_container then [] else [Workload_container_check])
      @ (if skipped force_start check_workload_container
            \<or> installed_workload_container_version e = Some (pinned_workload_container_version e)
         then
           (if skipped force_start check_compatibility then []
            else Compatibility_check
                 # (if installed_workload_container_matched_pinned_container original_versions
                       \<and> installed_workload_container_version e
                           = Some (pinned_workload_container_version e)
                    then [Is_compatible_call] else []))
           @ (if skipped force_start check_compatibility
                 \<or> (installed_workload_container_matched_pinned_container original_versions
                    \<and> installed_workload_container_version e
                        = Some (pinned_workload_container_version e)
                    \<and> is_compatible e (charm original_versions) (installed_charm_version e)
                         (workload original_versions) (pinned_workload_version e))
              then (if skipped force_start run_pre_refresh_checks then []
                    else [Pre_refresh_checks])
              else [])
         else [])"
proof -
  obtain ok1 self1 where 1: "workload_container_check e force_start self = (ok1, self1)"
    by (cases "workload_container_check e force_start self") auto
  obtain ok2 self2 where 2: "compatibility_check e force_start original_versions self1 = (ok2, self2)"
    by (cases "compatibility_check e force_start original_versions self1") auto
  obtain ok3 self3 where 3: "pre_refresh_checks e force_start self2 = (ok3, self3)"
    by (cases "pre_refresh_checks e force_start self2") auto
  note r1 = workload_container_check_result [OF 1]
    and r2 = compatibility_check_result [OF 2]
    and r3 = pre_refresh_checks_result [OF 3]
  have result: "(ok, self') =
      (if ok1 then (if ok2 then (ok3, self3) else (False, self2)) else (False, self1))"
    using assms 1 2 3 unfolding automatic_checks_def by (cases ok1; cases ok2) simp_all
  show "ok =
      ((skipped force_start check_workload_container
         \<or> installed_workload_container_version e = Some (pinned_workload_container_version e))
       \<and> (skipped force_start check_compatibility
         \<or> (installed_workload_container_matched_pinned_container original_versions
            \<and> installed_workload_container_version e = Some (pinned_workload_container_version e)
            \<and> is_compatible e (charm original_versions) (installed_charm_version e)
                 (workload original_versions) (pinned_workload_version e)))
       \<and> (skipped force_start run_pre_refresh_checks
         \<or> run_pre_refresh_checks_after_1_unit_refreshed e = None))"
    using result r1 r2 r3 by (cases ok1; cases ok2) auto
  show "checks_run self' = checks_run self
      @ (if skipped force_start check_workload_container then [] else [Workload_container_check])
      @ (if skipped force_start check_workload_container
            \<or> installed_workload_container_version e = Some (pinned_workload_container_version e)
         then
           (if skipped force_start check_compatibility then []
            else Compatibility_check
                 # (if installed_workload_container_matched_pinned_container original_versions
                       \<and> installed_workload_container_version e
                           = Some (pinned_workload_container_version e)
                    then [Is_compatible_call] else []))
           @ (if skipped force_start check_compatibility
                 \<or> (installed_workload_container_matched_pinned_container original_versions
                    \<and> installed_workload_container_version e
                        = Some (pinned_workload_container_version e)
                    \<and> is_compatible e (charm original_versions) (installed_charm_version e)
                         (workload original_versions) (pinned_workload_version e))
              then (if skipped force_start run_pre_refresh_checks then []
                    else [Pre_refresh_checks])
              else [])
         else [])"
    using result r1 r2 r3 by (cases ok1; cases ok2) (simp_all split: if_splits)
qed

lemma automatic_checks_frame:
  "automatic_checks e force_start original_versions self = (ok, self') \<Longrightarrow>
   refresh_started self' = refresh_started self \<and> relation self' = relation self
   \<and> statefulset_partition self' = statefulset_partition self
   \<and> refresh_started_local_state self' = refresh_started_local_state self"
  unfolding automatic_checks_def workload_container_check_def compatibility_check_def
    pre_refresh_checks_def force_start_log_def force_start_fail_def check_runs_def
    action_fail_def action_log_def Let_def
  by (auto split: if_splits option.splits prod.splits bool.splits)

lemma start_refresh_runs_automatic_checks:
  assumes "in_progress self0"
    and "units self0 = unit0 # unit1 # rest"
    and "this_unit e = number unit0"
    and "unit_controller_revision self0 = app_controller_revision e"
    and "from_app_databag (valid_charm_version e) (my_app (relation self0)) = Inr original_versions"
    and "\<not> revision_in_refresh_started e self0 (app_controller_revision e)"
    and "\<not> (charm original_versions = installed_charm_version e
            \<and> Some (workload_container original_versions)
                = installed_workload_container_version e)"
    and "ForceRefreshStartAction_init (event e) (this_unit e) (number unit0) True
           = (failures, force_start)"
  shows "start_refresh e self0 =
      (case automatic_checks e force_start original_versions
              (self0\<lparr>action_failures := action_failures self0 @ failures,
                      unit_status_higher_priority := None, refresh_started := False\<rparr>) of
         (False, self4) \<Rightarrow> (None, self4)
       | (True, self4) \<Rightarrow>
           (None,
            if force_start \<noteq> None
            then action_set_result (Workload_refreshed_on_unit (this_unit e))
                   (set_refresh_started self4)
            else set_refresh_started self4))"
  unfolding start_refresh_def
  using assms
  by (auto simp add: Let_def revision_in_refresh_started_frame split: prod.splits bool.splits)

text \<open>
  Claim C4. Where \<^verbatim>\<open>_start_refresh\<close> gets past the rollback check, it runs the automatic
  checks from an object whose refresh has not started, and marks the refresh as started
  iff they all succeed or are skipped. The checks run in the order workload container
  check, compatibility check (with the call of \<^verbatim>\<open>is_compatible\<close> inside it), pre-refresh
  checks. A check runs iff the action does not skip it and no check that ran before it
  failed; \<^verbatim>\<open>is_compatible\<close> is called only if the snapshot's container matched its pin
  and the installed container matches the pin. A compatibility check that runs on a
  snapshot whose container did not match its pin fails, whatever \<^verbatim>\<open>is_compatible\<close> is.
\<close>

theorem automatic_checks_run_in_order_until_first_failure:
  assumes "automatic_checks e force_start original_versions self = (ok, self')"
  shows "(\<exists>trace. checks_run self' = checks_run self @ trace
           \<and> subseq trace [Workload_container_check, Compatibility_check, Is_compatible_call,
                            Pre_refresh_checks]
           \<and> (Workload_container_check \<in> set trace \<longleftrightarrow>
                \<not> skipped force_start check_workload_container)
           \<and> (Compatibility_check \<in> set trace \<longleftrightarrow>
                \<not> skipped force_start check_compatibility
                \<and> (skipped force_start check_workload_container
                    \<or> installed_workload_container_version e
                        = Some (pinned_workload_container_version e)))
           \<and> (Is_compatible_call \<in> set trace \<longleftrightarrow>
                Compatibility_check \<in> set trace
                \<and> installed_workload_container_matched_pinned_container original_versions
                \<and> installed_workload_container_version e
                    = Some (pinned_workload_container_version e))
           \<and> (Pre_refresh_checks \<in> set trace \<longleftrightarrow>
                \<not> skipped force_start run_pre_refresh_checks
                \<and> (skipped force_start check_workload_container
                    \<or> installed_workload_container_version e
                        = Some (pinned_workload_container_version e))
                \<and> (skipped force_start check_compatibility
                    \<or> (installed_workload_container_matched_pinned_container original_versions
                       \<and> installed_workload_container_version e
                           = Some (pinned_workload_container_version e)
                       \<and> is_compatible e (charm original_versions) (installed_charm_version e)
                            (workload original_versions) (pinned_workload_version e)))))
       \<and> ok =
           ((skipped force_start check_workload_container
              \<or> installed_workload_container_version e
                  = Some (pinned_workload_container_version e))
            \<and> (skipped force_start check_compatibility
              \<or> (installed_workload_container_matched_pinned_container original_versions
                 \<and> installed_workload_container_version e
                     = Some (pinned_workload_container_version e)
                 \<and> is_compatible e (charm original_versions) (installed_charm_version e)
                      (workload original_versions) (pinned_workload_version e)))
            \<and> (skipped force_start run_pre_refresh_checks
              \<or> run_pre_refresh_checks_after_1_unit_refreshed e = None))
       \<and> (\<not> skipped force_start check_compatibility
            \<and> \<not> installed_workload_container_matched_pinned_container original_versions \<longrightarrow>
            (\<forall>f. \<not> fst (automatic_checks (e\<lparr>is_compatible := f\<rparr>) force_start
                           original_versions self)))
       \<and> (in_progress self0 \<and> units self0 = unit0 # unit1 # rest \<and> this_unit e = number unit0
            \<and> unit_controller_revision self0 = app_controller_revision e
            \<and> from_app_databag (valid_charm_version e) (my_app (relation self0))
                = Inr original_versions
            \<and> \<not> revision_in_refresh_started e self0 (app_controller_revision e)
            \<and> \<not> (charm original_versions = installed_charm_version e
                   \<and> Some (workload_container original_versions)
                       = installed_workload_container_version e)
            \<and> ForceRefreshStartAction_init (event e) (this_unit e) (number unit0) True
                = (failures, force_start)
            \<and> self = self0\<lparr>action_failures := action_failures self0 @ failures,
                             unit_status_higher_priority := None, refresh_started := False\<rparr>
            \<longrightarrow> fst (start_refresh e self0) = None
               \<and> refresh_started (snd (start_refresh e self0)) = ok
               \<and> checks_run (snd (start_refresh e self0)) = checks_run self')"
proof -
  note r = automatic_checks_result [OF assms]
  let ?trace = "drop (length (checks_run self)) (checks_run self')"
  have trace: "checks_run self' = checks_run self @ ?trace"
    unfolding r(2) by simp
  have 1: "\<exists>trace. checks_run self' = checks_run self @ trace
           \<and> subseq trace [Workload_container_check, Compatibility_check, Is_compatible_call,
                            Pre_refresh_checks]
           \<and> (Workload_container_check \<in> set trace \<longleftrightarrow>
                \<not> skipped force_start check_workload_container)
           \<and> (Compatibility_check \<in> set trace \<longleftrightarrow>
                \<not> skipped force_start check_compatibility
                \<and> (skipped force_start check_workload_container
                    \<or> installed_workload_container_version e
                        = Some (pinned_workload_container_version e)))
           \<and> (Is_compatible_call \<in> set trace \<longleftrightarrow>
                Compatibility_check \<in> set trace
                \<and> installed_workload_container_matched_pinned_container original_versions
                \<and> installed_workload_container_version e
                    = Some (pinned_workload_container_version e))
           \<and> (Pre_refresh_checks \<in> set trace \<longleftrightarrow>
                \<not> skipped force_start run_pre_refresh_checks
                \<and> (skipped force_start check_workload_container
                    \<or> installed_workload_container_version e
                        = Some (pinned_workload_container_version e))
                \<and> (skipped force_start check_compatibility
                    \<or> (installed_workload_container_matched_pinned_container original_versions
                       \<and> installed_workload_container_version e
                           = Some (pinned_workload_container_version e)
                       \<and> is_compatible e (charm original_versions) (installed_charm_version e)
                            (workload original_versions) (pinned_workload_version e))))"
    apply (rule exI [of _ ?trace])
    apply (rule conjI [OF trace])
    unfolding r(2)
    apply (simp split: if_splits)
    done
  have 3: "\<not> fst (automatic_checks (e\<lparr>is_compatible := f\<rparr>) force_start original_versions self)"
    if "\<not> skipped force_start check_compatibility"
      "\<not> installed_workload_container_matched_pinned_container original_versions" for f
    using automatic_checks_result(1) [of "e\<lparr>is_compatible := f\<rparr>" force_start original_versions
        self "fst (automatic_checks (e\<lparr>is_compatible := f\<rparr>) force_start original_versions self)"
        "snd (automatic_checks (e\<lparr>is_compatible := f\<rparr>) force_start original_versions self)"]
      that by simp
  have 4: "fst (start_refresh e self0) = None
               \<and> refresh_started (snd (start_refresh e self0)) = ok
               \<and> checks_run (snd (start_refresh e self0)) = checks_run self'"
    if "in_progress self0" "units self0 = unit0 # unit1 # rest" "this_unit e = number unit0"
      "unit_controller_revision self0 = app_controller_revision e"
      "from_app_databag (valid_charm_version e) (my_app (relation self0))
                = Inr original_versions"
      "\<not> revision_in_refresh_started e self0 (app_controller_revision e)"
      "\<not> (charm original_versions = installed_charm_version e
                   \<and> Some (workload_container original_versions)
                       = installed_workload_container_version e)"
      "ForceRefreshStartAction_init (event e) (this_unit e) (number unit0) True
                = (failures, force_start)"
      "self = self0\<lparr>action_failures := action_failures self0 @ failures,
                             unit_status_higher_priority := None, refresh_started := False\<rparr>"
  proof -
    have not_started: "\<not> refresh_started self'"
      using automatic_checks_frame [OF assms] that(9) by simp
    show ?thesis
      unfolding start_refresh_runs_automatic_checks [OF that(1-8)] that(9) [symmetric] assms
      using not_started
      by (cases ok) (simp_all add: set_refresh_started_simps action_set_result_def)
  qed
  from 1 r(1) 3 4 show ?thesis by blast
qed

theorem automatic_checks_run_in_order_until_first_failure_witness:
  "automatic_checks refresh_env None scenario_original_versions refresh_self =
     (True, refresh_self\<lparr>checks_run := [Workload_container_check, Compatibility_check,
                                          Is_compatible_call, Pre_refresh_checks]\<rparr>)
   \<and> \<not> fst (automatic_checks refresh_env None
              (scenario_original_versions
                 \<lparr>workload := None,
                  installed_workload_container_matched_pinned_container := False\<rparr>)
              refresh_self)
   \<and> checks_run (snd (automatic_checks refresh_env None
              (scenario_original_versions
                 \<lparr>workload := None,
                  installed_workload_container_matched_pinned_container := False\<rparr>)
              refresh_self))
      = [Workload_container_check, Compatibility_check]
   \<and> fst (start_refresh refresh_env refresh_self) = None
   \<and> refresh_started (snd (start_refresh refresh_env refresh_self))
   \<and> checks_run (snd (start_refresh refresh_env refresh_self))
      = [Workload_container_check, Compatibility_check, Is_compatible_call, Pre_refresh_checks]"
  using automatic_checks_run_in_order_until_first_failure
      [of refresh_env None scenario_original_versions refresh_self True
        "refresh_self\<lparr>checks_run := [Workload_container_check, Compatibility_check,
                                       Is_compatible_call, Pre_refresh_checks]\<rparr>"
        refresh_self
        "\<lparr>number = 2, controller_revision = ''v2'', pod_uid = ''uid2''\<rparr>"
        "\<lparr>number = 1, controller_revision = ''v1'', pod_uid = ''uid1''\<rparr>"
        "[\<lparr>number = 0, controller_revision = ''v1'', pod_uid = ''uid0''\<rparr>]" "[]"]
    automatic_checks_run_in_order_until_first_failure
      [of refresh_env None
        "scenario_original_versions
           \<lparr>workload := None, installed_workload_container_matched_pinned_container := False\<rparr>"
        refresh_self False
        "snd (automatic_checks refresh_env None
              (scenario_original_versions
                 \<lparr>workload := None,
                  installed_workload_container_matched_pinned_container := False\<rparr>)
              refresh_self)"]
  by (simp add: refresh_env_def refresh_self_def scenario_original_versions_def scenario_defs
      start_refresh_defs)

section \<open>Properties of next\_unit\_allowed\_to\_refresh\<close>

lemma allow_next_unit_to_refresh_frame_more:
  "allow_next_unit_to_refresh e handle_action action i u self = (err, allow, self') \<Longrightarrow>
   relation self' = relation self \<and> units self' = units self
   \<and> in_progress self' = in_progress self
   \<and> unit_controller_revision self' = unit_controller_revision self
   \<and> units_not_tearing_down self' = units_not_tearing_down self"
  unfolding allow_next_unit_to_refresh_def action_fail_def action_log_def action_set_result_def
  by (auto split: if_splits option.splits list.splits)

lemma set_partition_and_app_status_frame:
  "set_partition_and_app_status e handle_action self = (err, self') \<Longrightarrow>
   relation self' = relation self \<and> units self' = units self
   \<and> in_progress self' = in_progress self
   \<and> unit_controller_revision self' = unit_controller_revision self"
  unfolding set_partition_and_app_status_def Let_def
  apply (simp add: action_fail_def split: if_splits option.splits prod.splits sum.splits)
  apply (auto dest!: allow_next_unit_to_refresh_frame_more
      simp: lower_partition_def set_partition_def action_fail_def split: if_splits)
  done

lemma revision_in_refresh_started_cong:
  "units s = units t \<Longrightarrow> relation s = relation t \<Longrightarrow>
   revision_in_refresh_started e s r = revision_in_refresh_started e t r"
  unfolding revision_in_refresh_started_def by simp

lemma workload_allowed_to_start_cong:
  "in_progress s = in_progress t \<Longrightarrow> units s = units t \<Longrightarrow> relation s = relation t \<Longrightarrow>
   unit_controller_revision s = unit_controller_revision t \<Longrightarrow>
   workload_allowed_to_start e s = workload_allowed_to_start e t"
  unfolding workload_allowed_to_start_def
  using revision_in_refresh_started_cong [of s t e "unit_controller_revision t"] by simp

lemma revision_in_refresh_started_allow_next:
  "revision_in_refresh_started e
     (update_my_unit
        (\<lambda>databag. databag
           \<lparr>next_unit_allowed_to_refresh_if_app_controller_revision_hash_equals := x\<rparr>) self) r
   = revision_in_refresh_started e self r"
proof -
  have "relation_get_key
          (relation (update_my_unit
             (\<lambda>databag. databag
                \<lparr>next_unit_allowed_to_refresh_if_app_controller_revision_hash_equals := x\<rparr>) self))
          (this_unit e) unit refresh_started_if_app_controller_revision_hash_in
        = relation_get_key (relation self) (this_unit e) unit
            refresh_started_if_app_controller_revision_hash_in" for unit
    by (simp add: update_my_unit_def relation_get_key_def relation_get_def)
  then show ?thesis
    unfolding revision_in_refresh_started_def by (simp add: update_my_unit_def)
qed

lemma workload_allowed_to_start_allow_next:
  "workload_allowed_to_start e
     (update_my_unit
        (\<lambda>databag. databag
           \<lparr>next_unit_allowed_to_refresh_if_app_controller_revision_hash_equals := x\<rparr>) self)
   = workload_allowed_to_start e self"
  unfolding workload_allowed_to_start_def
  by (simp add: revision_in_refresh_started_allow_next) (simp add: update_my_unit_def)

text \<open>
  Claim C10. Setting \<^verbatim>\<open>next_unit_allowed_to_refresh\<close> to a value that is not
  \<^verbatim>\<open>True\<close> raises \<^verbatim>\<open>ValueError\<close>, and setting it to \<^verbatim>\<open>True\<close> while
  \<^verbatim>\<open>workload_allowed_to_start\<close> is \<^verbatim>\<open>False\<close> raises an exception; both leave the
  object, and with it the unit's databag, as it was. Setting it to \<^verbatim>\<open>True\<close> while
  \<^verbatim>\<open>workload_allowed_to_start\<close> is \<^verbatim>\<open>True\<close> leaves this unit's controller revision
  in the unit's databag, after which reading the property gives \<^verbatim>\<open>True\<close>, and setting
  it again returns with nothing changed.
\<close>

theorem set_next_unit_allowed_to_refresh_records_revision:
  "(v \<noteq> PyTrue \<longrightarrow> set_next_unit_allowed_to_refresh e v self = (Some ValueError, self))
   \<and> (workload_allowed_to_start e self = Inr False \<longrightarrow>
        set_next_unit_allowed_to_refresh e PyTrue self = (Some Exception', self))
   \<and> (workload_allowed_to_start e self = Inr True
        \<and> set_next_unit_allowed_to_refresh e PyTrue self = (err, self') \<longrightarrow>
        next_unit_allowed_to_refresh_if_app_controller_revision_hash_equals
          (my_unit (relation self')) = Some (unit_controller_revision self)
        \<and> unit_controller_revision self' = unit_controller_revision self
        \<and> next_unit_allowed_to_refresh self'
        \<and> set_next_unit_allowed_to_refresh e PyTrue self' = (None, self'))"
proof -
  let ?key = "next_unit_allowed_to_refresh_if_app_controller_revision_hash_equals"
  have 1: "v \<noteq> PyTrue \<longrightarrow> set_next_unit_allowed_to_refresh e v self = (Some ValueError, self)"
    by (simp add: set_next_unit_allowed_to_refresh_def)
  have 2: "workload_allowed_to_start e self = Inr False \<longrightarrow>
        set_next_unit_allowed_to_refresh e PyTrue self = (Some Exception', self)"
    by (simp add: set_next_unit_allowed_to_refresh_def)
  have 3: "?key (my_unit (relation self')) = Some (unit_controller_revision self)
        \<and> unit_controller_revision self' = unit_controller_revision self
        \<and> next_unit_allowed_to_refresh self'
        \<and> set_next_unit_allowed_to_refresh e PyTrue self' = (None, self')"
    if allowed: "workload_allowed_to_start e self = Inr True"
      and set: "set_next_unit_allowed_to_refresh e PyTrue self = (err, self')"
  proof (cases "?key (my_unit (relation self)) = Some (unit_controller_revision self)")
    case True
    with allowed set have "self' = self"
      by (simp add: set_next_unit_allowed_to_refresh_def)
    with True allowed show ?thesis
      by (simp add: set_next_unit_allowed_to_refresh_def next_unit_allowed_to_refresh_def)
  next
    case False
    define self1 where
      "self1 = update_my_unit
                 (\<lambda>databag. databag
                    \<lparr>next_unit_allowed_to_refresh_if_app_controller_revision_hash_equals :=
                       Some (unit_controller_revision self)\<rparr>) self"
    from False allowed set
    have run: "set_partition_and_app_status e False self1 = (err, self')"
      by (simp add: set_next_unit_allowed_to_refresh_def self1_def)
    from set_partition_and_app_status_frame [OF run]
    have frame: "relation self' = relation self1" "units self' = units self1"
      "in_progress self' = in_progress self1"
      "unit_controller_revision self' = unit_controller_revision self1"
      by simp_all
    have self1: "unit_controller_revision self1 = unit_controller_revision self"
      "?key (my_unit (relation self1)) = Some (unit_controller_revision self)"
      by (simp_all add: self1_def update_my_unit_def)
    have "workload_allowed_to_start e self' = workload_allowed_to_start e self1"
      by (rule workload_allowed_to_start_cong) (simp_all add: frame)
    also have "\<dots> = workload_allowed_to_start e self"
      unfolding self1_def by (rule workload_allowed_to_start_allow_next)
    finally have allowed': "workload_allowed_to_start e self' = Inr True"
      using allowed by simp
    from frame self1 have key': "?key (my_unit (relation self')) = Some (unit_controller_revision self')"
      by simp
    from allowed' key' have "set_next_unit_allowed_to_refresh e PyTrue self' = (None, self')"
      by (simp add: set_next_unit_allowed_to_refresh_def)
    with frame self1 key' show ?thesis
      by (simp add: next_unit_allowed_to_refresh_def)
  qed
  from 1 2 3 show ?thesis by blast
qed

text \<open>
  The scenario on unit 2 once its refresh has started: the unit's databag holds \<open>v2\<close> in
  \<^verbatim>\<open>"refresh_started_if_app_controller_revision_hash_in"\<close>.
\<close>

theorem set_next_unit_allowed_to_refresh_records_revision_witness:
  "workload_allowed_to_start refresh_env (set_refresh_started refresh_self) = Inr True
   \<and> \<not> next_unit_allowed_to_refresh (set_refresh_started refresh_self)
   \<and> fst (set_next_unit_allowed_to_refresh refresh_env PyTrue (set_refresh_started refresh_self))
       = None
   \<and> next_unit_allowed_to_refresh
        (snd (set_next_unit_allowed_to_refresh refresh_env PyTrue
                (set_refresh_started refresh_self)))
   \<and> set_next_unit_allowed_to_refresh refresh_env PyFalse refresh_self
       = (Some ValueError, refresh_self)
   \<and> workload_allowed_to_start refresh_env refresh_self = Inr False
   \<and> set_next_unit_allowed_to_refresh refresh_env PyTrue refresh_self
       = (Some Exception', refresh_self)"
  using set_next_unit_allowed_to_refresh_records_revision
      [of PyTrue refresh_env "set_refresh_started refresh_self"
        "fst (set_next_unit_allowed_to_refresh refresh_env PyTrue
                (set_refresh_started refresh_self))"
        "snd (set_next_unit_allowed_to_refresh refresh_env PyTrue
                (set_refresh_started refresh_self))"]
    set_next_unit_allowed_to_refresh_records_revision [of PyFalse refresh_env refresh_self]
  by (simp add: set_next_unit_allowed_to_refresh_def workload_allowed_to_start_def
      next_unit_allowed_to_refresh_def set_partition_and_app_status_defs
      refresh_env_def refresh_self_def scenario_defs start_refresh_defs)

lemmas Kubernetes_init_defs =
  Kubernetes_init_def then_do_def new_Kubernetes_def world_of_def sorted_units_def truthy_def
  setdefault_def append_all_missing_def save_tearing_down_def check_trust_def get_units_def
  check_tearing_down_def determine_in_progress_def raise_partition_during_stop_event_def
  get_relation_def raise_partition_after_pod_restart_def set_pause_after_config_def
  propagate_tearing_down_uids_def save_departing_unit_def
  determine_units_not_tearing_down_def save_revision_during_stop_event_def
  propagate_refresh_started_def update_my_app_def propagate_refresh_started_to_app_def
  set_pause_after_def clean_up_and_save_versions_def get_rollback_command_def
  pre_refresh_check_action_def write_to_app_databag_def
  determine_pause_after_def is_most_up_to_date_def pause_after_values_def max_PauseAfter_def
  PauseAfter_of_def PauseAfter_gt_def

lemma leader_first_evaluation:
  "Kubernetes_init leader_env leader_world =
     (None,
      (new_Kubernetes leader_world)
      \<lparr>statefulset_partition := 2,
        relation := (relation refresh_self)
          \<lparr>my_unit := empty_unit_databag
             \<lparr>refresh_started_if_app_controller_revision_hash_in := Some [''v2''],
              pause_after_unit_refresh_config := Some ''first''\<rparr>,
           my_app := (my_app scenario_relation)
             \<lparr>app_refresh_started_if_app_controller_revision_hash_in := Some []\<rparr>\<rparr>,
        refresh_started_local_state := True,
        units := scenario_units, units_not_tearing_down := scenario_units,
        in_progress := True, unit_controller_revision := ''v2'', pause_after := FIRST,
        refresh_started := True,
        app_status_higher_priority :=
          Some (BlockedStatus (Refreshing_check_units_healthy_and_resume 2)),
        partition_patches := [2],
        app_status := Some (BlockedStatus (Refreshing_check_units_healthy_and_resume 2)),
        checks_run := [Workload_container_check, Compatibility_check, Is_compatible_call,
                       Pre_refresh_checks]\<rparr>)"
  by (simp add: Kubernetes_init_defs leader_env_def leader_world_def scenario_world_def
      refresh_self_def scenario_defs start_refresh_defs set_partition_and_app_status_defs)

text \<open>
  Claim C7, as stated, fails. In the scenario with unit 2 as the leader, the first
  evaluation runs the checks and marks the refresh as started in unit 2's databag, after
  the point where the leader copies the units' started revisions into the app databag. The
  second evaluation, from the state the first left and with the same inputs, makes that
  copy: it changes the app databag.
\<close>

theorem second_evaluation_writes_app_databag:
  "fst (Kubernetes_init leader_env leader_world) = None
   \<and> app_refresh_started_if_app_controller_revision_hash_in
        (my_app (relation (snd (Kubernetes_init leader_env leader_world)))) = Some []
   \<and> fst (Kubernetes_init leader_env
            (world_of (snd (Kubernetes_init leader_env leader_world)))) = None
   \<and> app_refresh_started_if_app_controller_revision_hash_in
        (my_app (relation (snd (Kubernetes_init leader_env
           (world_of (snd (Kubernetes_init leader_env leader_world))))))) = Some [''v2'']
   \<and> world_of (snd (Kubernetes_init leader_env
           (world_of (snd (Kubernetes_init leader_env leader_world)))))
      \<noteq> world_of (snd (Kubernetes_init leader_env leader_world))"
proof -
  have second: "fst (Kubernetes_init leader_env
            (world_of (snd (Kubernetes_init leader_env leader_world)))) = None
     \<and> app_refresh_started_if_app_controller_revision_hash_in
        (my_app (relation (snd (Kubernetes_init leader_env
           (world_of (snd (Kubernetes_init leader_env leader_world))))))) = Some [''v2'']"
    unfolding leader_first_evaluation
    by (simp add: Kubernetes_init_defs leader_env_def leader_world_def scenario_world_def
      refresh_self_def scenario_defs start_refresh_defs set_partition_and_app_status_defs)
  have first: "app_refresh_started_if_app_controller_revision_hash_in
        (my_app (relation (snd (Kubernetes_init leader_env leader_world)))) = Some []"
    unfolding leader_first_evaluation by simp
  have "relation (world_of s) = relation s" for s
    by (simp add: world_of_def)
  with first second have "world_of (snd (Kubernetes_init leader_env
           (world_of (snd (Kubernetes_init leader_env leader_world)))))
      \<noteq> world_of (snd (Kubernetes_init leader_env leader_world))"
    by (metis list.distinct(1) option.inject)
  with first second show ?thesis by (simp add: leader_first_evaluation)
qed

lemma foldl_then_do_raised: "foldl then_do (Some err, s) fs = (Some err, s)"
  by (induction fs) (simp_all add: then_do_def)

lemma foldl_then_do_keeps:
  assumes "\<And>f s. f \<in> set fs \<Longrightarrow> I s \<Longrightarrow> I (snd (f s))" and "I (snd r)"
  shows "I (snd (foldl then_do r fs))"
  using assms
proof (induction fs arbitrary: r)
  case Nil
  then show ?case by simp
next
  case (Cons f fs)
  obtain err s where r: "r = (err, s)" by (cases r)
  show ?case
  proof (cases err)
    case None
    with r have "then_do r f = f s" by (simp add: then_do_def)
    moreover from Cons.prems r have "I (snd (f s))" by simp
    ultimately show ?thesis using Cons.IH [of "f s"] Cons.prems(1) by simp
  next
    case (Some x)
    with r have "then_do r f = r" by (simp add: then_do_def)
    then have "foldl then_do r (f # fs) = foldl then_do r fs" by simp
    also from r Some have "\<dots> = r" by (simp add: foldl_then_do_raised)
    finally show ?thesis using Cons.prems(2) by simp
  qed
qed

lemma list_ex_sorted_units: "list_ex P (sorted_units xs) = list_ex P xs"
  by (simp add: sorted_units_def list_ex_iff)

lemma Kubernetes_init_until_pod_restart:
  assumes "event e \<noteq> StopEvent"
    and "had_opportunity_to_raise_partition_after_pod_restart w"
    and "r = foldl then_do (None, new_Kubernetes w)
           [save_tearing_down e, check_trust e, get_units e, check_tearing_down e,
            determine_in_progress e, raise_partition_during_stop_event e, get_relation e,
            raise_partition_after_pod_restart e]"
  shows "statefulset_partition (snd r) = statefulset_partition w
       \<and> (fst r = None \<longrightarrow> in_progress (snd r) = pods_in_progress e)"
  using assms(1,2) unfolding assms(3) pods_in_progress_def
  by (auto simp: then_do_def new_Kubernetes_def save_tearing_down_def check_trust_def
      get_units_def check_tearing_down_def determine_in_progress_def
      raise_partition_during_stop_event_def get_relation_def
      raise_partition_after_pod_restart_def action_fail_def Let_def list_ex_sorted_units
      split: event.splits option.splits action.splits if_splits)

lemma automatic_checks_frame_partition:
  "automatic_checks e force_start original_versions self = (ok, self') \<Longrightarrow>
   statefulset_partition self' = statefulset_partition self
   \<and> in_progress self' = in_progress self
   \<and> partition_patches self' = partition_patches self"
  unfolding automatic_checks_def workload_container_check_def compatibility_check_def
    pre_refresh_checks_def force_start_log_def force_start_fail_def check_runs_def
    action_fail_def action_log_def Let_def
  by (auto split: if_splits option.splits prod.splits bool.splits)

lemma start_refresh_frame_partition:
  "start_refresh e self = (err, self') \<Longrightarrow>
   statefulset_partition self' = statefulset_partition self
   \<and> in_progress self' = in_progress self
   \<and> partition_patches self' = partition_patches self"
  unfolding start_refresh_def Let_def
  by (auto simp: force_start_fail_def action_fail_def action_set_result_def
      set_refresh_started_def update_my_unit_def
      split: list.splits prod.splits sum.splits if_splits bool.splits
      dest!: automatic_checks_frame_partition)

lemma Kubernetes_init_steps_keep_partition:
  assumes "in_progress s \<and> statefulset_partition s \<le> p"
  shows "in_progress (snd (set_pause_after_config e s))
           \<and> statefulset_partition (snd (set_pause_after_config e s)) \<le> p"
    and "in_progress (snd (propagate_tearing_down_uids e s))
           \<and> statefulset_partition (snd (propagate_tearing_down_uids e s)) \<le> p"
    and "in_progress (snd (save_departing_unit e s))
           \<and> statefulset_partition (snd (save_departing_unit e s)) \<le> p"
    and "in_progress (snd (determine_units_not_tearing_down e s))
           \<and> statefulset_partition (snd (determine_units_not_tearing_down e s)) \<le> p"
    and "in_progress (snd (save_revision_during_stop_event e s))
           \<and> statefulset_partition (snd (save_revision_during_stop_event e s)) \<le> p"
    and "in_progress (snd (propagate_refresh_started e s))
           \<and> statefulset_partition (snd (propagate_refresh_started e s)) \<le> p"
    and "in_progress (snd (propagate_refresh_started_to_app e s))
           \<and> statefulset_partition (snd (propagate_refresh_started_to_app e s)) \<le> p"
    and "in_progress (snd (set_pause_after e s))
           \<and> statefulset_partition (snd (set_pause_after e s)) \<le> p"
    and "in_progress (snd (clean_up_and_save_versions e s))
           \<and> statefulset_partition (snd (clean_up_and_save_versions e s)) \<le> p"
    and "in_progress (snd (get_rollback_command e s))
           \<and> statefulset_partition (snd (get_rollback_command e s)) \<le> p"
    and "in_progress (snd (pre_refresh_check_action e s))
           \<and> statefulset_partition (snd (pre_refresh_check_action e s)) \<le> p"
    and "in_progress (snd (start_refresh e s))
           \<and> statefulset_partition (snd (start_refresh e s)) \<le> p"
    and "in_progress (snd (set_partition_and_app_status e True s))
           \<and> statefulset_partition (snd (set_partition_and_app_status e True s)) \<le> p"
proof -
  show "in_progress (snd (set_pause_after_config e s))
           \<and> statefulset_partition (snd (set_pause_after_config e s)) \<le> p"
    using assms by (simp add: set_pause_after_config_def update_my_unit_def)
  show "in_progress (snd (propagate_tearing_down_uids e s))
           \<and> statefulset_partition (snd (propagate_tearing_down_uids e s)) \<le> p"
    using assms by (simp add: propagate_tearing_down_uids_def update_my_unit_def split: option.splits)
  show "in_progress (snd (save_departing_unit e s))
           \<and> statefulset_partition (snd (save_departing_unit e s)) \<le> p"
    using assms
    by (simp add: save_departing_unit_def update_my_unit_def Let_def
        split: event.splits list.splits)
  show "in_progress (snd (determine_units_not_tearing_down e s))
           \<and> statefulset_partition (snd (determine_units_not_tearing_down e s)) \<le> p"
    using assms by (simp add: determine_units_not_tearing_down_def Let_def)
  show "in_progress (snd (save_revision_during_stop_event e s))
           \<and> statefulset_partition (snd (save_revision_during_stop_event e s)) \<le> p"
    using assms by (simp add: save_revision_during_stop_event_def update_my_unit_def)
  show "in_progress (snd (propagate_refresh_started e s))
           \<and> statefulset_partition (snd (propagate_refresh_started e s)) \<le> p"
    using assms by (simp add: propagate_refresh_started_def update_my_unit_def)
  show "in_progress (snd (propagate_refresh_started_to_app e s))
           \<and> statefulset_partition (snd (propagate_refresh_started_to_app e s)) \<le> p"
    using assms by (simp add: propagate_refresh_started_to_app_def update_my_app_def)
  show "in_progress (snd (set_pause_after e s))
           \<and> statefulset_partition (snd (set_pause_after e s)) \<le> p"
    using assms by (simp add: set_pause_after_def split: sum.splits)
  show "in_progress (snd (clean_up_and_save_versions e s))
           \<and> statefulset_partition (snd (clean_up_and_save_versions e s)) \<le> p"
    using assms by (simp add: clean_up_and_save_versions_def)
  show "in_progress (snd (get_rollback_command e s))
           \<and> statefulset_partition (snd (get_rollback_command e s)) \<le> p"
    using assms by (simp add: get_rollback_command_def split: sum.splits)
  show "in_progress (snd (pre_refresh_check_action e s))
           \<and> statefulset_partition (snd (pre_refresh_check_action e s)) \<le> p"
    using assms
    by (simp add: pre_refresh_check_action_def action_fail_def action_set_result_def
        split: option.splits)
  show "in_progress (snd (start_refresh e s))
           \<and> statefulset_partition (snd (start_refresh e s)) \<le> p"
    using assms start_refresh_frame_partition [of e s "fst (start_refresh e s)"
        "snd (start_refresh e s)"]
    by simp
  show "in_progress (snd (set_partition_and_app_status e True s))
           \<and> statefulset_partition (snd (set_partition_and_app_status e True s)) \<le> p"
    using assms
      set_partition_and_app_status_only_lowers [of s e True
        "fst (set_partition_and_app_status e True s)"
        "snd (set_partition_and_app_status e True s)"]
      set_partition_and_app_status_frame [of e True s
        "fst (set_partition_and_app_status e True s)"
        "snd (set_partition_and_app_status e True s)"]
    by auto
qed

lemma Kubernetes_init_does_not_raise_partition:
  assumes "event e \<noteq> StopEvent"
    and "had_opportunity_to_raise_partition_after_pod_restart w"
    and "pods_in_progress e"
  shows "statefulset_partition (snd (Kubernetes_init e w)) \<le> statefulset_partition w"
proof -
  define r where
    "r = foldl then_do (None, new_Kubernetes w)
           [save_tearing_down e, check_trust e, get_units e, check_tearing_down e,
            determine_in_progress e, raise_partition_during_stop_event e, get_relation e,
            raise_partition_after_pod_restart e]"
  define rest where
    "rest = [set_pause_after_config e, propagate_tearing_down_uids e, save_departing_unit e,
             determine_units_not_tearing_down e, save_revision_during_stop_event e,
             propagate_refresh_started e, propagate_refresh_started_to_app e,
             set_pause_after e, clean_up_and_save_versions e, get_rollback_command e,
             pre_refresh_check_action e, start_refresh e,
             set_partition_and_app_status e True]"
  have init: "Kubernetes_init e w = foldl then_do r rest"
    by (simp add: Kubernetes_init_def r_def rest_def)
  note r = Kubernetes_init_until_pod_restart [OF assms(1,2) r_def]
  show ?thesis
  proof (cases "fst r")
    case (Some err)
    then have "r = (Some err, snd r)" by (cases r) simp
    then have "foldl then_do r rest = r" by (metis foldl_then_do_raised)
    with r init show ?thesis by simp
  next
    case None
    with r assms(3) have I: "in_progress (snd r) \<and> statefulset_partition (snd r) \<le> statefulset_partition w"
      by simp
    have "in_progress (snd (foldl then_do r rest))
        \<and> statefulset_partition (snd (foldl then_do r rest)) \<le> statefulset_partition w"
    proof (rule foldl_then_do_keeps [where I = "\<lambda>s::Kubernetes. in_progress s
        \<and> statefulset_partition s \<le> statefulset_partition w"])
      fix f and s :: Kubernetes
      assume "f \<in> set rest"
        and "in_progress s \<and> statefulset_partition s \<le> statefulset_partition w"
      then show "in_progress (snd (f s))
          \<and> statefulset_partition (snd (f s)) \<le> statefulset_partition w"
        unfolding rest_def
        using Kubernetes_init_steps_keep_partition [of s "statefulset_partition w" e]
        by auto
    next
      show "in_progress (snd r) \<and> statefulset_partition (snd r) \<le> statefulset_partition w"
        by (rule I)
    qed
    with init show ?thesis by simp
  qed
qed

lemma partitions_after_evaluations_sorted:
  "(\<forall>step \<in> set steps. event (fst step) \<noteq> StopEvent
       \<and> had_opportunity_to_raise_partition_after_pod_restart (snd step)
       \<and> pods_in_progress (fst step)) \<Longrightarrow>
   sorted_wrt (\<ge>) (p # partitions_after_evaluations steps p)"
proof (induction steps arbitrary: p)
  case Nil
  then show ?case by simp
next
  case (Cons step steps)
  obtain e w where step: "step = (e, w)" by (cases step)
  define p' where
    "p' = statefulset_partition (snd (Kubernetes_init e (w\<lparr>statefulset_partition := p\<rparr>)))"
  from Cons.prems step
  have "event e \<noteq> StopEvent"
    "had_opportunity_to_raise_partition_after_pod_restart (w\<lparr>statefulset_partition := p\<rparr>)"
    "pods_in_progress e"
    by simp_all
  from Kubernetes_init_does_not_raise_partition [OF this] have le: "p' \<le> p"
    by (simp add: p'_def)
  from Cons.prems have "\<forall>step \<in> set steps. event (fst step) \<noteq> StopEvent
       \<and> had_opportunity_to_raise_partition_after_pod_restart (snd step)
       \<and> pods_in_progress (fst step)"
    by simp
  from Cons.IH [OF this, of p'] have IH: "sorted_wrt (\<ge>) (p' # partitions_after_evaluations steps p')" .
  have ps: "partitions_after_evaluations (step # steps) p = p' # partitions_after_evaluations steps p'"
    by (simp add: step p'_def Let_def)
  from IH le show ?case unfolding ps by auto
qed

text \<open>
  Claim C1, as the code has it. While a refresh is in progress,
  \<^verbatim>\<open>_set_partition_and_app_status\<close> patches the partition at most once, and only with a
  value strictly below the partition in force: the partition is patched with the target
  exactly when the target is strictly lower, and the policy never raises it. An evaluation
  (\<^verbatim>\<open>__init__\<close>) during a refresh in which neither guard of \<^verbatim>\<open>__init__\<close> applies, that
  is one whose event is not a stop event and which finds the file that records the
  opportunity to raise the partition after a pod restart, leaves the partition equal or
  lower; so over any sequence of such evaluations the partition in force never increases.
\<close>

theorem partition_is_lowered_by_policy_and_raised_only_by_guards:
  "(in_progress self \<and> set_partition_and_app_status e handle_action self = (err, self') \<longrightarrow>
      (statefulset_partition self' = statefulset_partition self
         \<and> partition_patches self' = partition_patches self)
      \<or> (statefulset_partition self' < statefulset_partition self
         \<and> partition_patches self' = partition_patches self @ [statefulset_partition self']))
   \<and> partition_patches (lower_partition target self) =
         (if target < statefulset_partition self then partition_patches self @ [target]
          else partition_patches self)
   \<and> statefulset_partition (lower_partition target self) \<le> statefulset_partition self
   \<and> (event e \<noteq> StopEvent \<and> had_opportunity_to_raise_partition_after_pod_restart w
        \<and> pods_in_progress e \<longrightarrow>
        statefulset_partition (snd (Kubernetes_init e w)) \<le> statefulset_partition w)
   \<and> ((\<forall>step \<in> set steps. event (fst step) \<noteq> StopEvent
           \<and> had_opportunity_to_raise_partition_after_pod_restart (snd step)
           \<and> pods_in_progress (fst step)) \<longrightarrow>
         sorted_wrt (\<ge>) (p # partitions_after_evaluations steps p))"
  using set_partition_and_app_status_only_lowers [of self e handle_action err self']
    lower_partition_patches [of target self] lower_partition_le [of target self]
    Kubernetes_init_does_not_raise_partition [of e w]
    partitions_after_evaluations_sorted [of steps p]
  by blast

theorem partition_is_lowered_by_policy_and_raised_only_by_guards_witness:
  "in_progress scenario_self
   \<and> statefulset_partition scenario_self = 3
   \<and> statefulset_partition (snd (set_partition_and_app_status scenario_env True scenario_self)) = 2
   \<and> partition_patches (snd (set_partition_and_app_status scenario_env True scenario_self)) = [2]
   \<and> event leader_env \<noteq> StopEvent
   \<and> had_opportunity_to_raise_partition_after_pod_restart leader_world
   \<and> pods_in_progress leader_env
   \<and> statefulset_partition leader_world = 3
   \<and> statefulset_partition (snd (Kubernetes_init leader_env leader_world)) = 2
   \<and> partitions_after_evaluations [(leader_env, leader_world)] 3 = [2]"
proof -
  have w: "leader_world\<lparr>statefulset_partition := 3\<rparr> = leader_world"
    by (simp add: leader_world_def scenario_world_def)
  show ?thesis
    using partition_is_lowered_by_policy_and_raised_only_by_guards
      [of scenario_self scenario_env True None
        "snd (set_partition_and_app_status scenario_env True scenario_self)" 2
        leader_world "[(leader_env, leader_world)]" 3]
    by (simp add: scenario_pause_at_first_unit leader_first_evaluation w new_Kubernetes_def)
      (simp add: scenario_defs leader_env_def leader_world_def scenario_world_def
        pods_in_progress_def)
qed

text \<open>
  Claim C1, as stated, fails: a recomputation by the leader is a run of \<^verbatim>\<open>__init__\<close>,
  and its stop-event guard raises the partition. In the scenario, on the leader unit 2 after
  the refresh to \<open>v2\<close> has started and with the partition at 1, a stop event of unit 2
  patches the partition to 2, and the policy, whose target is 2, leaves it there.
\<close>

theorem stop_event_on_leader_raises_partition:
  "is_leader stop_env \<and> pods_in_progress stop_env
   \<and> statefulset_partition started_world = 1
   \<and> fst (Kubernetes_init stop_env started_world) = None
   \<and> in_progress (snd (Kubernetes_init stop_env started_world))
   \<and> statefulset_partition (snd (Kubernetes_init stop_env started_world)) = 2
   \<and> partition_patches (snd (Kubernetes_init stop_env started_world)) = [2]"
  by (simp add: Kubernetes_init_defs stop_env_def started_world_def scenario_world_def
      pods_in_progress_def refresh_self_def scenario_defs start_refresh_defs
      set_partition_and_app_status_defs)

section \<open>Properties of the force-refresh-start action\<close>








section \<open>A rollback while a higher unit is tearing down\<close>

text \<open>
  Claim C3, as stated, fails: it is about the highest unit that is not tearing down, and
  \<^verbatim>\<open>_start_refresh\<close> compares this unit with \<^verbatim>\<open>self._units[0]\<close>, the highest of all the
  pods. In the rollback while unit 3 is tearing down, unit 2 is the highest unit that is not
  tearing down, it is on the app's controller revision and its charm version and workload
  container digest are those of the version snapshot; yet \<^verbatim>\<open>__init__\<close> (which ends with
  \<^verbatim>\<open>_start_refresh\<close>) and \<^verbatim>\<open>_start_refresh\<close> itself leave the refresh not started, the
  controller revision is not added to the unit's databag and no local state file is written.
\<close>

theorem rollback_below_tearing_down_unit_does_not_start_refresh:
  "this_unit scale_down_env = 2
   \<and> fst (Kubernetes_init scale_down_env scale_down_world) = None
   \<and> map number (units (snd (Kubernetes_init scale_down_env scale_down_world))) = [3, 2, 1, 0]
   \<and> map number (units_not_tearing_down (snd (Kubernetes_init scale_down_env scale_down_world)))
       = [2, 1, 0]
   \<and> in_progress (snd (Kubernetes_init scale_down_env scale_down_world))
   \<and> unit_controller_revision (snd (Kubernetes_init scale_down_env scale_down_world))
       = app_controller_revision scale_down_env
   \<and> map_sum id charm
        (from_app_databag (valid_charm_version scale_down_env)
           (my_app (relation scale_down_world)))
       = Inr (installed_charm_version scale_down_env)
   \<and> map_sum id (\<lambda>original_versions. Some (workload_container original_versions))
        (from_app_databag (valid_charm_version scale_down_env)
           (my_app (relation scale_down_world)))
       = Inr (installed_workload_container_version scale_down_env)
   \<and> \<not> refresh_started (snd (Kubernetes_init scale_down_env scale_down_world))
   \<and> \<not> refresh_started_local_state (snd (Kubernetes_init scale_down_env scale_down_world))
   \<and> refresh_started_if_app_controller_revision_hash_in
        (my_unit (relation (snd (Kubernetes_init scale_down_env scale_down_world))))
       = Some [''v2'']
   \<and> checks_run (snd (Kubernetes_init scale_down_env scale_down_world)) = []
   \<and> start_refresh scale_down_env (snd (Kubernetes_init scale_down_env scale_down_world))
       = (None, snd (Kubernetes_init scale_down_env scale_down_world))"
  by (simp add: Kubernetes_init_defs scale_down_env_def scale_down_world_def rollback_env_def
      scenario_world_def scenario_defs start_refresh_defs set_partition_and_app_status_defs)

end
